theory Spec2Isabelle
  imports Main
begin

section \<open>JavaScript values used by the synchronization layer\<close>

text \<open>
  Strings are byte lists (UTF-8). Dates are integers (milliseconds since the epoch);
  every function that reads the clock (\<open>new Date()\<close>) takes the instant as its first
  argument \<open>now\<close>. JavaScript numbers that hold counters, ordinals and positions are
  integers or naturals; the counts handled here stay far below \<open>2^53\<close>, where doubles
  are exact.
\<close>

datatype json =
    JUndefined
  | JNull
  | JBool bool
  | JNum int
  | JStr string
  | JDate int
  | JArr "json list"
  | JObj "(string \<times> json) list"

text \<open>
  A \<open>Date\<close> holds a time value of at most 8.64e15 ms on either side of the epoch;
  \<open>new Date(t)\<close> beyond that is an Invalid Date, which the store's schemas refuse when a
  document is created or saved. An instant outside the range stands for an Invalid Date.
\<close>

definition valid_date :: "int \<Rightarrow> bool" where
  "valid_date t = (- 8640000000000000 \<le> t \<and> t \<le> 8640000000000000)"

datatype js_error =
    TypeError string
  | CastError string
  | ValidationError string
  | DuplicateKey string
  | Rejected string

subsection \<open>\<open>String.prototype.includes\<close> and \<open>String.prototype.replace\<close>\<close>

fun startsWith :: "string \<Rightarrow> string \<Rightarrow> bool" where
  "startsWith [] s = True"
| "startsWith (p # ps) [] = False"
| "startsWith (p # ps) (c # cs) = (p = c \<and> startsWith ps cs)"

fun indexOf :: "string \<Rightarrow> string \<Rightarrow> nat option" where
  "indexOf pat [] = (if pat = [] then Some 0 else None)"
| "indexOf pat (c # cs) =
     (if startsWith pat (c # cs) then Some 0 else map_option Suc (indexOf pat cs))"

definition str_includes :: "string \<Rightarrow> string \<Rightarrow> bool" where
  "str_includes s pat = (indexOf pat s \<noteq> None)"

text \<open>
  \<open>getSubstitution matched before after replacement\<close> expands the replacement text of
  \<open>replace\<close> when the pattern is a string (no capture groups): \<open>$$\<close> is a dollar sign,
  \<open>$&\<close> the matched text, \<open>$`\<close> the text before the match, \<open>$'\<close> the text after it;
  any other \<open>$\<close> stands for itself.
\<close>

fun getSubstitution :: "string \<Rightarrow> string \<Rightarrow> string \<Rightarrow> string \<Rightarrow> string" where
  "getSubstitution m b a [] = []"
| "getSubstitution m b a [c] = [c]"
| "getSubstitution m b a (c # d # r) =
     (if c = CHR ''$'' then
        (if d = CHR ''$'' then CHR ''$'' # getSubstitution m b a r
         else if d = CHR ''&'' then m @ getSubstitution m b a r
         else if d = CHR 0x60 then b @ getSubstitution m b a r
         else if d = CHR 0x27 then a @ getSubstitution m b a r
         else c # getSubstitution m b a (d # r))
      else c # getSubstitution m b a (d # r))"

text \<open>\<open>replace s pat rep\<close> is \<open>s.replace(pat, rep)\<close>: only the first occurrence is replaced.\<close>

definition replace :: "string \<Rightarrow> string \<Rightarrow> string \<Rightarrow> string" where
  "replace s pat rep =
     (case indexOf pat s of
        None \<Rightarrow> s
      | Some i \<Rightarrow>
          take i s
          @ getSubstitution pat (take i s) (drop (i + length pat) s) rep
          @ drop (i + length pat) s)"

section \<open>Session state machine (\<open>config/whatsapp.js\<close>)\<close>

datatype client_status =
  INITIALIZING | QR_READY | AUTHENTICATED | READY | DISCONNECTED | FAILED

text \<open>What the module emits on its \<open>clientEvents\<close> emitter.\<close>

datatype client_event =
    Emit_status client_status
  | Emit_qr string
  | Emit_authenticated
  | Emit_ready
  | Emit_disconnected string
  | Emit_session_saved
  | Emit_auth_failure string
  | Emit_loading nat string
  | Emit_state_change string

text \<open>
  The module state: whether \<open>client\<close> is non-null, \<open>clientStatus\<close>, \<open>currentQR\<close>
  (\<open>None\<close> is \<open>null\<close>), and the events emitted so far.
\<close>

record session =
  client :: bool
  clientStatus :: client_status
  currentQR :: "string option"
  emitted :: "client_event list"

definition initial_session :: session where
  "initial_session =
     \<lparr>client = False, clientStatus = DISCONNECTED, currentQR = None, emitted = []\<rparr>"

definition emit :: "client_event \<Rightarrow> session \<Rightarrow> session" where
  "emit e s = s\<lparr>emitted := emitted s @ [e]\<rparr>"

text \<open>
  What can happen to the module: calls of its exported functions, the events of the
  client it listens to, and the rejection of the background initialization
  (\<open>initializeAsync().catch\<close>). \<open>Call_destroyClient ok\<close> and \<open>Call_logoutClient ok\<close>
  carry whether the client's own \<open>destroy()\<close> / \<open>logout()\<close> resolves.
\<close>

datatype session_input =
    Call_initializeClient
  | InitializeAsync_rejected string
  | On_qr string
  | On_authenticated
  | On_ready
  | On_disconnected string
  | On_remote_session_saved
  | On_auth_failure string
  | On_loading_screen nat string
  | On_change_state string
  | Call_destroyClient bool
  | Call_logoutClient bool

definition initializeAsync :: "session \<Rightarrow> session" where
  "initializeAsync s =
     (emit (Emit_status INITIALIZING) (s\<lparr>clientStatus := INITIALIZING\<rparr>))\<lparr>client := True\<rparr>"

definition initializeClient :: "session \<Rightarrow> session" where
  "initializeClient s =
     (if client s \<and> clientStatus s = READY then s else initializeAsync s)"

text \<open>The listeners of \<open>attachEventListeners\<close>; they exist once a client was created.\<close>

fun listener :: "session_input \<Rightarrow> session \<Rightarrow> session" where
  "listener (On_qr qr) s =
     emit (Emit_status QR_READY)
       (emit (Emit_qr qr) (s\<lparr>currentQR := Some qr, clientStatus := QR_READY\<rparr>))"
| "listener On_authenticated s =
     emit (Emit_status AUTHENTICATED)
       (emit Emit_authenticated (s\<lparr>currentQR := None, clientStatus := AUTHENTICATED\<rparr>))"
| "listener On_ready s =
     emit (Emit_status READY) (emit Emit_ready (s\<lparr>clientStatus := READY\<rparr>))"
| "listener (On_disconnected reason) s =
     emit (Emit_status DISCONNECTED)
       (emit (Emit_disconnected reason) (s\<lparr>clientStatus := DISCONNECTED, currentQR := None\<rparr>))"
| "listener On_remote_session_saved s = emit Emit_session_saved s"
| "listener (On_auth_failure msg) s =
     emit (Emit_status FAILED) (emit (Emit_auth_failure msg) (s\<lparr>clientStatus := FAILED\<rparr>))"
| "listener (On_loading_screen percent message) s = emit (Emit_loading percent message) s"
| "listener (On_change_state state) s = emit (Emit_state_change state) s"
| "listener _ s = s"

fun session_step :: "session_input \<Rightarrow> session \<Rightarrow> session" where
  "session_step Call_initializeClient s = initializeClient s"
| "session_step (InitializeAsync_rejected msg) s =
     emit (Emit_status FAILED) (s\<lparr>clientStatus := FAILED\<rparr>)"
| "session_step (Call_destroyClient ok) s =
     (if client s \<and> ok
      then s\<lparr>client := False, clientStatus := DISCONNECTED, currentQR := None\<rparr>
      else s)"
| "session_step (Call_logoutClient ok) s =
     (if client s \<and> ok then s\<lparr>clientStatus := DISCONNECTED, currentQR := None\<rparr> else s)"
| "session_step ev s = (if client s then listener ev s else s)"

definition session_run :: "session_input list \<Rightarrow> session \<Rightarrow> session" where
  "session_run evs s = foldl (\<lambda>s ev. session_step ev s) s evs"

definition getClientStatus :: "session \<Rightarrow> client_status" where
  "getClientStatus s = clientStatus s"

definition getCurrentQR :: "session \<Rightarrow> string option" where
  "getCurrentQR s = currentQR s"

definition isClientReady :: "session \<Rightarrow> bool" where
  "isClientReady s = (client s \<and> clientStatus s = READY)"

section \<open>Fan-out and outbound effects (\<open>app.js\<close>)\<close>

text \<open>
  Everything a handler does to the outside is appended to one trace, in program order:
  a call of the injected \<open>broadcastFn\<close>, a wait (\<open>delay(ms)\<close>), and a call of
  \<open>chat.sendMessage\<close> (recorded when the call is made, whether or not it later rejects).
\<close>

record wa_contact =
  contact_id :: string
  contact_user :: string
  number :: string

datatype effect =
    Broadcast string json
  | Delay int
  | SendMessage string string "wa_contact list"

definition WS_MESSAGE_NEW :: string where "WS_MESSAGE_NEW = ''message:new''"
definition WS_MESSAGE_ACK :: string where "WS_MESSAGE_ACK = ''message:ack''"
definition WS_MESSAGE_REVOKED :: string where "WS_MESSAGE_REVOKED = ''message:revoked''"
definition WS_MESSAGE_EDIT :: string where "WS_MESSAGE_EDIT = ''message:edit''"
definition WS_MESSAGE_REACTION :: string where "WS_MESSAGE_REACTION = ''message:reaction''"
definition WS_GROUP_JOIN :: string where "WS_GROUP_JOIN = ''group:join''"
definition WS_WATCHLIST_UPDATE :: string where "WS_WATCHLIST_UPDATE = ''watchlist:update''"
definition WS_WATCHLIST_MESSAGE :: string where "WS_WATCHLIST_MESSAGE = ''watchlist:message''"

lemmas WS_EVENTS_defs =
  WS_MESSAGE_NEW_def WS_MESSAGE_ACK_def WS_MESSAGE_REVOKED_def WS_MESSAGE_EDIT_def
  WS_MESSAGE_REACTION_def WS_GROUP_JOIN_def WS_WATCHLIST_UPDATE_def WS_WATCHLIST_MESSAGE_def

section \<open>Message log (\<open>messageSchema\<close> in \<open>models/session.model.js\<close>)\<close>

definition MESSAGE_TYPES :: "string list" where
  "MESSAGE_TYPES =
     [''chat'', ''image'', ''video'', ''audio'', ''ptt'', ''document'', ''sticker'',
      ''location'', ''vcard'', ''multi_vcard'', ''revoked'', ''order'', ''product'',
      ''payment'', ''unknown'', ''groups_v4_invite'', ''list'', ''list_response'',
      ''buttons_response'', ''broadcast_notification'', ''call_log'', ''ciphertext'',
      ''debug'', ''e2e_notification'', ''gp2'', ''notification'', ''hsm'', ''interactive'',
      ''native_flow'', ''notification_template'', ''oversized'', ''protocol'', ''reaction'',
      ''template_button_reply'', ''poll_creation'']"

definition MESSAGE_ACK :: "int list" where
  "MESSAGE_ACK = [- 1, 0, 1, 2, 3, 4]"

definition tombstone :: string where
  "tombstone = ''This message was deleted''"

record wa_link =
  link :: string
  isSuspicious :: bool

record wa_location =
  loc_latitude :: json
  loc_longitude :: json
  loc_description :: string
  loc_name :: string
  loc_address :: string
  loc_url :: string

record wa_chat =
  chat_name :: string

text \<open>
  The session collaborator's message object, with the properties this code reads.
  \<open>msg_id\<close> is \<open>message.id._serialized\<close>; \<open>msg_timestamp\<close> is in seconds, \<open>0\<close> when
  absent; \<open>msg_ack = None\<close> is \<open>undefined\<close>; \<open>msg_getChat = None\<close> says that
  \<open>message.getChat()\<close> rejects.
\<close>

record wa_message =
  msg_id :: string
  msg_body :: string
  msg_type :: string
  msg_timestamp :: int
  msg_from :: string
  msg_to :: string
  msg_author :: "string option"
  msg_fromMe :: bool
  msg_hasMedia :: bool
  msg_hasQuotedMsg :: bool
  msg_isForwarded :: bool
  msg_forwardingScore :: int
  msg_isStarred :: bool
  msg_isStatus :: bool
  msg_broadcast :: bool
  msg_mentionedIds :: "string list"
  msg_groupMentions :: "string list"
  msg_ack :: "int option"
  msg_hasReaction :: bool
  msg_links :: "wa_link list"
  msg_vCards :: "string list"
  msg_location :: "wa_location option"
  msg_deviceType :: string
  msg_getChat :: "wa_chat option"

record reaction_doc =
  emoji :: string
  senderId :: string
  reactedAt :: int

record media_doc =
  mimetype :: "string option"
  filename :: "string option"
  filesize :: "int option"
  url :: "string option"

record location_doc =
  latitude :: "json"
  longitude :: "json"
  description :: "string option"

text \<open>
  A stored message. \<open>doc_from\<close>, \<open>doc_to\<close> and \<open>doc_type\<close> are the schema's \<open>from\<close>,
  \<open>to\<close> and \<open>type\<close>; \<open>createdAt\<close> and \<open>updatedAt\<close> come from \<open>timestamps: true\<close>.
\<close>

record message_doc =
  messageId :: string
  chatId :: string
  doc_from :: string
  doc_to :: string
  author :: "string option"
  body :: string
  doc_type :: string
  timestamp :: int
  fromMe :: bool
  ack :: int
  hasMedia :: bool
  media :: media_doc
  hasQuotedMsg :: bool
  quotedMessageId :: "string option"
  isForwarded :: bool
  forwardingScore :: int
  isStarred :: bool
  isEdited :: bool
  isDeleted :: bool
  mentionedIds :: "string list"
  groupMentions :: "string list"
  links :: "wa_link list"
  location :: location_doc
  reactions :: "reaction_doc list"
  vCards :: "string list"
  createdAt :: int
  updatedAt :: int

subsection \<open>Collection primitives\<close>

text \<open>
  A collection is the list of its documents in insertion order. \<open>findOne\<close> returns the
  first match; \<open>findOneAndUpdate\<close> rewrites the first match in place and stamps
  \<open>updatedAt\<close>; update validators are off, as in the calls below. Store operations are
  taken to complete: connection failures are outside this model.
\<close>

fun update_first :: "('a \<Rightarrow> bool) \<Rightarrow> ('a \<Rightarrow> 'a) \<Rightarrow> 'a list \<Rightarrow> 'a list" where
  "update_first P f [] = []"
| "update_first P f (x # xs) = (if P x then f x # xs else x # update_first P f xs)"

definition findOne_message :: "string \<Rightarrow> message_doc list \<Rightarrow> message_doc option" where
  "findOne_message mid coll = find (\<lambda>d. messageId d = mid) coll"

definition findOneAndUpdate_message ::
  "int \<Rightarrow> string \<Rightarrow> (message_doc \<Rightarrow> message_doc) \<Rightarrow> message_doc list \<Rightarrow> message_doc list" where
  "findOneAndUpdate_message now mid upd coll =
     update_first (\<lambda>d. messageId d = mid) (\<lambda>d. (upd d)\<lparr>updatedAt := now\<rparr>) coll"

text \<open>
  The validators the schema declares: \<open>required\<close> on \<open>messageId\<close>, \<open>chatId\<close>, \<open>from\<close>,
  \<open>to\<close> (a required string must be non-empty) and \<open>timestamp\<close> (which must be a valid
  date), \<open>enum\<close> on \<open>type\<close> and \<open>ack\<close>; and the unique index on \<open>messageId\<close>.
\<close>

definition validate_message :: "message_doc \<Rightarrow> bool" where
  "validate_message d =
     (messageId d \<noteq> [] \<and> chatId d \<noteq> [] \<and> doc_from d \<noteq> [] \<and> doc_to d \<noteq> []
      \<and> doc_type d \<in> set MESSAGE_TYPES \<and> valid_date (timestamp d)
      \<and> ack d \<in> set MESSAGE_ACK)"

definition create_message ::
  "int \<Rightarrow> message_doc \<Rightarrow> message_doc list \<Rightarrow> js_error + (message_doc \<times> message_doc list)" where
  "create_message now d coll =
     (if \<not> validate_message d then Inl (ValidationError ''Message validation failed'')
      else if findOne_message (messageId d) coll \<noteq> None then Inl (DuplicateKey ''messageId'')
      else let d' = d\<lparr>createdAt := now, updatedAt := now\<rparr> in Inr (d', coll @ [d']))"

subsection \<open>Instance methods\<close>

text \<open>
  Each method edits the loaded document and calls \<open>save()\<close>, which validates the edited
  paths: \<open>updateAck\<close> with a level outside the schema's \<open>enum\<close> rejects and stores
  nothing; the paths the other three edit carry no validator.
\<close>

definition updateAck :: "int \<Rightarrow> int \<Rightarrow> message_doc \<Rightarrow> js_error + message_doc" where
  "updateAck now a d =
     (if a \<in> set MESSAGE_ACK then Inr (d\<lparr>ack := a, updatedAt := now\<rparr>)
      else Inl (ValidationError ''ack''))"

definition addReaction :: "int \<Rightarrow> string \<Rightarrow> string \<Rightarrow> message_doc \<Rightarrow> message_doc" where
  "addReaction now e sid d =
     (let kept = filter (\<lambda>r. senderId r \<noteq> sid) (reactions d);
          rs = (if e \<noteq> [] then kept @ [\<lparr>emoji = e, senderId = sid, reactedAt = now\<rparr>] else kept)
      in d\<lparr>reactions := rs, updatedAt := now\<rparr>)"

definition markAsDeleted :: "int \<Rightarrow> message_doc \<Rightarrow> message_doc" where
  "markAsDeleted now d = d\<lparr>isDeleted := True, body := tombstone, updatedAt := now\<rparr>"

definition markAsEdited :: "int \<Rightarrow> string \<Rightarrow> message_doc \<Rightarrow> message_doc" where
  "markAsEdited now newBody d = d\<lparr>body := newBody, isEdited := True, updatedAt := now\<rparr>"

subsection \<open>\<open>logMessage\<close>\<close>

definition message_date :: "int \<Rightarrow> int \<Rightarrow> int" where
  "message_date now ts = (if ts \<noteq> 0 then ts * 1000 else now)"

definition or_null :: "string option \<Rightarrow> string option" where
  "or_null a = (case a of Some x \<Rightarrow> (if x \<noteq> [] then Some x else None) | None \<Rightarrow> None)"

definition or_str :: "string \<Rightarrow> string \<Rightarrow> string" where
  "or_str a d = (if a \<noteq> [] then a else d)"

text \<open>The object handed to \<open>this.create\<close>, with the schema defaults filled in.\<close>

definition new_message_doc :: "int \<Rightarrow> wa_message \<Rightarrow> message_doc" where
  "new_message_doc now message =
     \<lparr>messageId = msg_id message,
      chatId = (if str_includes (msg_from message) ''@g.us'' then msg_from message
                else if msg_fromMe message then msg_to message
                else msg_from message),
      doc_from = msg_from message,
      doc_to = msg_to message,
      author = or_null (msg_author message),
      body = msg_body message,
      doc_type = or_str (msg_type message) ''chat'',
      timestamp = message_date now (msg_timestamp message),
      fromMe = msg_fromMe message,
      ack = (case msg_ack message of Some a \<Rightarrow> a | None \<Rightarrow> 0),
      hasMedia = msg_hasMedia message,
      media = \<lparr>mimetype = None, filename = None, filesize = None, url = None\<rparr>,
      hasQuotedMsg = msg_hasQuotedMsg message,
      quotedMessageId = None,
      isForwarded = msg_isForwarded message,
      forwardingScore = msg_forwardingScore message,
      isStarred = msg_isStarred message,
      isEdited = False,
      isDeleted = False,
      mentionedIds = msg_mentionedIds message,
      groupMentions = msg_groupMentions message,
      links = msg_links message,
      location = \<lparr>latitude = JNull, longitude = JNull, description = None\<rparr>,
      reactions = [],
      vCards = msg_vCards message,
      createdAt = now,
      updatedAt = now\<rparr>"

text \<open>
  \<open>message.id?._serialized || message.id\<close> is the serialized id when that is a non-empty
  string. Otherwise it is the id object, which the query cannot cast to the string key
  (or an empty string, which no stored key equals and the required validator refuses).
\<close>

definition logMessage ::
  "int \<Rightarrow> wa_message \<Rightarrow> message_doc list \<Rightarrow> js_error + (message_doc \<times> message_doc list)" where
  "logMessage now message coll =
     (if msg_id message = [] then Inl (CastError ''messageId'')
      else case findOne_message (msg_id message) coll of
             Some existingMessage \<Rightarrow> Inr (existingMessage, coll)
           | None \<Rightarrow> create_message now (new_message_doc now message) coll)"

subsection \<open>\<open>getChatMessages\<close>\<close>

text \<open>
  The options object; \<open>None\<close> is an absent property (for \<open>before\<close> and \<open>after\<close> also
  \<open>null\<close>), and \<open>before\<close> / \<open>after\<close> are instants. An absent \<open>limit\<close> is 50; a given
  one is a non-negative integer, passed to the store as it is. The query
  sorts by \<open>timestamp\<close> descending, keeps \<open>limit\<close> documents (the store reads a limit
  of \<open>0\<close> as no limit) and reverses the page. The store leaves the order among equal
  timestamps open; here equal timestamps keep their insertion order.
\<close>

record query_options =
  limit :: "nat option"
  before :: "int option"
  after :: "int option"
  includeDeleted :: bool

definition default_options :: query_options where
  "default_options = \<lparr>limit = None, before = None, after = None, includeDeleted = False\<rparr>"

text \<open>\<open>cursor c\<close> is the instant of a truthy \<open>before\<close> / \<open>after\<close> value.\<close>

definition cursor :: "int option \<Rightarrow> int option" where
  "cursor c = (case c of Some t \<Rightarrow> (if t \<noteq> 0 then Some t else None) | None \<Rightarrow> None)"

definition chat_query :: "string \<Rightarrow> query_options \<Rightarrow> message_doc \<Rightarrow> bool" where
  "chat_query c options d =
     (chatId d = c
      \<and> (includeDeleted options \<or> \<not> isDeleted d)
      \<and> (case cursor (before options) of
           Some b \<Rightarrow> timestamp d < b
         | None \<Rightarrow> (case cursor (after options) of
                      Some a \<Rightarrow> timestamp d > a
                    | None \<Rightarrow> True)))"

definition apply_limit :: "nat \<Rightarrow> 'a list \<Rightarrow> 'a list" where
  "apply_limit n xs = (if n = 0 then xs else take n xs)"

definition getChatMessages :: "string \<Rightarrow> query_options \<Rightarrow> message_doc list \<Rightarrow> message_doc list" where
  "getChatMessages c options coll =
     (let n = (case limit options of Some k \<Rightarrow> k | None \<Rightarrow> 50);
          messages = apply_limit n
            (sort_key (\<lambda>d. - timestamp d) (filter (chat_query c options) coll))
      in rev messages)"

section \<open>Watch registry (\<open>models/watchlist.model.js\<close>)\<close>

definition CHAT_TYPES :: "string list" where
  "CHAT_TYPES = [''private'', ''group'', ''channel'', ''broadcast'']"

record last_message =
  content :: string
  lm_timestamp :: "int option"
  lm_from :: "string option"
  lm_fromMe :: bool
  lm_type :: string

record watch_metadata =
  participantCount :: int
  md_description :: string
  isReadOnly :: bool
  isMuted :: bool

text \<open>
  A watch entry. \<open>w_chatId\<close>, \<open>w_isActive\<close>, \<open>w_order\<close>, \<open>w_notes\<close>, \<open>w_createdAt\<close> and
  \<open>w_updatedAt\<close> are the schema's \<open>chatId\<close>, \<open>isActive\<close>, \<open>order\<close>, \<open>notes\<close> and the two
  \<open>timestamps: true\<close> fields.
\<close>

record watch_doc =
  w_chatId :: string
  chatName :: string
  chatType :: string
  w_isActive :: bool
  notifications :: bool
  w_order :: int
  pinned :: bool
  unreadCount :: int
  lastMessage :: last_message
  profilePicUrl :: "string option"
  metadata :: watch_metadata
  w_notes :: string
  tags :: "string list"
  addedAt :: int
  w_createdAt :: int
  w_updatedAt :: int

subsection \<open>Instance methods\<close>

text \<open>
  \<open>updateLastMessage\<close> assigns \<open>lastMessage\<close> and \<open>unreadCount\<close> on the loaded document
  (\<open>edited_item\<close>) and calls \<open>save()\<close>. An Invalid Date for \<open>lastMessage.timestamp\<close> makes
  \<open>save()\<close> reject, and then nothing is written.
\<close>

definition edited_item :: "int \<Rightarrow> wa_message \<Rightarrow> watch_doc \<Rightarrow> watch_doc" where
  "edited_item now message w =
     w\<lparr>lastMessage :=
         \<lparr>content = msg_body message,
          lm_timestamp = Some (message_date now (msg_timestamp message)),
          lm_from = Some (case or_null (msg_author message) of
                            Some a \<Rightarrow> a | None \<Rightarrow> msg_from message),
          lm_fromMe = msg_fromMe message,
          lm_type = or_str (msg_type message) ''chat''\<rparr>,
       unreadCount := (if \<not> msg_fromMe message then unreadCount w + 1 else unreadCount w),
       w_updatedAt := now\<rparr>"

definition updateLastMessage :: "int \<Rightarrow> wa_message \<Rightarrow> watch_doc \<Rightarrow> js_error + watch_doc" where
  "updateLastMessage now message w =
     (if valid_date (message_date now (msg_timestamp message))
      then Inr (edited_item now message w)
      else Inl (ValidationError ''lastMessage.timestamp''))"

definition markAsRead :: "int \<Rightarrow> watch_doc \<Rightarrow> watch_doc" where
  "markAsRead now w = w\<lparr>unreadCount := 0, w_updatedAt := now\<rparr>"

definition togglePin :: "int \<Rightarrow> watch_doc \<Rightarrow> watch_doc" where
  "togglePin now w = w\<lparr>pinned := \<not> pinned w, w_updatedAt := now\<rparr>"

definition toggleNotifications :: "int \<Rightarrow> watch_doc \<Rightarrow> watch_doc" where
  "toggleNotifications now w = w\<lparr>notifications := \<not> notifications w, w_updatedAt := now\<rparr>"

subsection \<open>Static methods\<close>

text \<open>\<open>Watchlist.findOne({chatId, isActive: true})\<close>\<close>

definition watched :: "string \<Rightarrow> watch_doc \<Rightarrow> bool" where
  "watched c w = (w_chatId w = c \<and> w_isActive w)"

definition findOne_watched :: "string \<Rightarrow> watch_doc list \<Rightarrow> watch_doc option" where
  "findOne_watched c coll = find (watched c) coll"

text \<open>
  A loaded document is a copy that remembers which stored document it is (its \<open>_id\<close>):
  here the position in the collection, which never shrinks. \<open>load_watched\<close> is the same
  \<open>findOne\<close> with that position; \<open>save_item\<close> is the write of \<open>save()\<close> after
  \<open>updateLastMessage\<close>: it sets the edited paths of the stored document at that position
  to the copy's values and leaves the other fields as they are stored.
\<close>

fun find_at :: "('a \<Rightarrow> bool) \<Rightarrow> 'a list \<Rightarrow> (nat \<times> 'a) option" where
  "find_at P [] = None"
| "find_at P (x # xs) =
     (if P x then Some (0, x) else map_option (\<lambda>(i, y). (Suc i, y)) (find_at P xs))"

definition load_watched :: "string \<Rightarrow> watch_doc list \<Rightarrow> (nat \<times> watch_doc) option" where
  "load_watched c coll = find_at (watched c) coll"

definition save_item :: "nat \<Rightarrow> watch_doc \<Rightarrow> watch_doc list \<Rightarrow> watch_doc list" where
  "save_item i edited coll =
     (if i < length coll
      then coll[i := (coll ! i)\<lparr>lastMessage := lastMessage edited,
                                  unreadCount := unreadCount edited,
                                  w_updatedAt := w_updatedAt edited\<rparr>]
      else coll)"

text \<open>The object \<open>WatchlistService.addToWatchlist\<close> builds and hands to the model.\<close>

record chat_data =
  cd_chatId :: string
  cd_chatName :: string
  cd_chatType :: string
  cd_profilePicUrl :: "string option"
  cd_metadata :: watch_metadata
  cd_lastMessage :: "last_message option"

definition validate_watch :: "watch_doc \<Rightarrow> bool" where
  "validate_watch w =
     (w_chatId w \<noteq> [] \<and> chatName w \<noteq> [] \<and> chatType w \<in> set CHAT_TYPES)"

definition new_watch_doc :: "int \<Rightarrow> chat_data \<Rightarrow> int \<Rightarrow> watch_doc" where
  "new_watch_doc now chatData ord =
     \<lparr>w_chatId = cd_chatId chatData,
      chatName = cd_chatName chatData,
      chatType = cd_chatType chatData,
      w_isActive = True,
      notifications = True,
      w_order = ord,
      pinned = False,
      unreadCount = 0,
      lastMessage = (case cd_lastMessage chatData of
                       Some lm \<Rightarrow> lm
                     | None \<Rightarrow> \<lparr>content = [], lm_timestamp = None, lm_from = None,
                                lm_fromMe = False, lm_type = ''chat''\<rparr>),
      profilePicUrl = cd_profilePicUrl chatData,
      metadata = cd_metadata chatData,
      w_notes = [],
      tags = [],
      addedAt = now,
      w_createdAt = now,
      w_updatedAt = now\<rparr>"

definition create_watch ::
  "watch_doc \<Rightarrow> watch_doc list \<Rightarrow> js_error + (watch_doc \<times> watch_doc list)" where
  "create_watch w coll =
     (if \<not> validate_watch w then Inl (ValidationError ''Watchlist validation failed'')
      else if find (\<lambda>x. w_chatId x = w_chatId w) coll \<noteq> None then Inl (DuplicateKey ''chatId'')
      else Inr (w, coll @ [w]))"

text \<open>\<open>findOne({isActive: true}).sort({order: -1}).select("order")\<close>\<close>

definition maxOrder :: "watch_doc list \<Rightarrow> int option" where
  "maxOrder coll =
     (case sort_key (\<lambda>w. - w_order w) (filter w_isActive coll) of
        [] \<Rightarrow> None
      | w # _ \<Rightarrow> Some (w_order w))"

definition addToWatchlist ::
  "int \<Rightarrow> chat_data \<Rightarrow> watch_doc list \<Rightarrow> js_error + (watch_doc \<times> watch_doc list)" where
  "addToWatchlist now chatData coll =
     (case find (\<lambda>w. w_chatId w = cd_chatId chatData) coll of
        Some existing \<Rightarrow>
          (if \<not> w_isActive existing
           then let saved = existing\<lparr>w_isActive := True, w_updatedAt := now\<rparr>
                in Inr (saved, update_first (\<lambda>w. w_chatId w = cd_chatId chatData) (\<lambda>_. saved) coll)
           else Inr (existing, coll))
      | None \<Rightarrow>
          create_watch
            (new_watch_doc now chatData
               ((case maxOrder coll of Some ord \<Rightarrow> (if ord \<noteq> 0 then ord else 0) | None \<Rightarrow> 0) + 1))
            coll)"

definition removeFromWatchlist :: "int \<Rightarrow> string \<Rightarrow> watch_doc list \<Rightarrow> watch_doc list" where
  "removeFromWatchlist now c coll =
     update_first (\<lambda>w. w_chatId w = c) (\<lambda>w. w\<lparr>w_isActive := False, w_updatedAt := now\<rparr>) coll"

section \<open>Group auto-message settings (\<open>models/settings.model.js\<close>)\<close>

record auto_message_config =
  enabled :: bool
  cfg_message :: string
  includeGroupRules :: bool
  mentionUser :: bool
  includeMedia :: bool
  mediaUrl :: "string option"
  delay :: int

text \<open>
  The group settings document with the fields the join handler reads; the command and
  moderation settings, which no function below touches, are left out. A trigger is
  \<open>None\<close> when the sub-document is missing (the handler reads it through \<open>?.\<close>);
  \<open>am_welcome\<close> is \<open>autoMessages.welcome\<close>, and so on.
\<close>

record group_settings_doc =
  groupId :: string
  groupName :: string
  am_welcome :: "auto_message_config option"
  am_farewell :: "auto_message_config option"
  am_rules :: "auto_message_config option"
  groupRules :: string
  gs_isActive :: bool

text \<open>\<open>GroupSettings.findOne({groupId, isActive: true})\<close>\<close>

definition findOne_settings :: "string \<Rightarrow> group_settings_doc list \<Rightarrow> group_settings_doc option" where
  "findOne_settings g coll = find (\<lambda>d. groupId d = g \<and> gs_isActive d) coll"

section \<open>Formatters (\<open>utils/formatters.js\<close>)\<close>

definition id_value :: "string \<Rightarrow> json" where
  "id_value serialized = (if serialized \<noteq> [] then JStr serialized
                          else JObj [(''_serialized'', JStr serialized)])"

definition str_or_null :: "string \<Rightarrow> json" where
  "str_or_null x = (if x \<noteq> [] then JStr x else JNull)"

definition ackLabels :: "(int \<times> string) list" where
  "ackLabels = [(- 1, ''error''), (0, ''pending''), (1, ''sent''), (2, ''received''),
                (3, ''read''), (4, ''played'')]"

definition formatAck :: "int option \<Rightarrow> json" where
  "formatAck a =
     JObj [(''status'', (case a of Some x \<Rightarrow> JNum x | None \<Rightarrow> JUndefined)),
           (''label'', JStr (case a of
                               Some x \<Rightarrow> (case map_of ackLabels x of
                                            Some l \<Rightarrow> l | None \<Rightarrow> ''unknown'')
                             | None \<Rightarrow> ''unknown''))]"

definition formatLocation :: "wa_location \<Rightarrow> json" where
  "formatLocation l =
     JObj [(''latitude'', loc_latitude l),
           (''longitude'', loc_longitude l),
           (''description'', str_or_null (loc_description l)),
           (''name'', str_or_null (loc_name l)),
           (''address'', str_or_null (loc_address l)),
           (''url'', str_or_null (loc_url l))]"

definition formatLink :: "wa_link \<Rightarrow> json" where
  "formatLink l = JObj [(''link'', JStr (link l)), (''isSuspicious'', JBool (isSuspicious l))]"

definition formatMessage :: "int \<Rightarrow> wa_message \<Rightarrow> json" where
  "formatMessage now message =
     JObj [(''id'', id_value (msg_id message)),
           (''body'', JStr (msg_body message)),
           (''type'', JStr (or_str (msg_type message) ''chat'')),
           (''timestamp'', JDate (message_date now (msg_timestamp message))),
           (''from'', JStr (msg_from message)),
           (''to'', JStr (msg_to message)),
           (''author'', (case or_null (msg_author message) of Some a \<Rightarrow> JStr a | None \<Rightarrow> JNull)),
           (''fromMe'', JBool (msg_fromMe message)),
           (''hasMedia'', JBool (msg_hasMedia message)),
           (''hasQuotedMsg'', JBool (msg_hasQuotedMsg message)),
           (''isForwarded'', JBool (msg_isForwarded message)),
           (''forwardingScore'', JNum (msg_forwardingScore message)),
           (''isStarred'', JBool (msg_isStarred message)),
           (''isStatus'', JBool (msg_isStatus message)),
           (''broadcast'', JBool (msg_broadcast message)),
           (''mentionedIds'', JArr (map JStr (msg_mentionedIds message))),
           (''groupMentions'', JArr (map JStr (msg_groupMentions message))),
           (''ack'', formatAck (msg_ack message)),
           (''hasReaction'', JBool (msg_hasReaction message)),
           (''links'', JArr (map formatLink (msg_links message))),
           (''vCards'', JArr (map JStr (msg_vCards message))),
           (''location'', (case msg_location message of
                             Some l \<Rightarrow> formatLocation l | None \<Rightarrow> JNull)),
           (''deviceType'', JStr (or_str (msg_deviceType message) ''unknown''))]"

text \<open>The group notification and the reaction, as the session collaborator delivers them.\<close>

record wa_notification =
  n_id :: string
  n_type :: string
  n_chatId :: string
  n_author :: "string option"
  n_recipientIds :: "string list"
  n_timestamp :: int

definition formatGroupNotification :: "int \<Rightarrow> wa_notification \<Rightarrow> json" where
  "formatGroupNotification now notification =
     JObj [(''id'', id_value (n_id notification)),
           (''type'', JStr (n_type notification)),
           (''chatId'', JStr (n_chatId notification)),
           (''author'', (case n_author notification of Some a \<Rightarrow> JStr a | None \<Rightarrow> JUndefined)),
           (''recipientIds'', JArr (map JStr (n_recipientIds notification))),
           (''timestamp'', JDate (message_date now (n_timestamp notification)))]"

text \<open>
  \<open>rx_reaction\<close> is the emoji, empty when the reaction was removed; \<open>rx_msgId\<close> is
  \<open>reaction.msgId._serialized\<close>.
\<close>

record wa_reaction =
  rx_id :: string
  rx_reaction :: string
  rx_senderId :: string
  rx_timestamp :: int
  rx_orphaned :: bool
  rx_msgId :: string

definition formatReaction :: "int \<Rightarrow> wa_reaction \<Rightarrow> json" where
  "formatReaction now reaction =
     JObj [(''id'', id_value (rx_id reaction)),
           (''reaction'', JStr (rx_reaction reaction)),
           (''senderId'', JStr (rx_senderId reaction)),
           (''timestamp'', JDate (message_date now (rx_timestamp reaction))),
           (''orphaned'', JBool (rx_orphaned reaction)),
           (''msgId'', JObj [(''_serialized'', JStr (rx_msgId reaction))])]"

section \<open>Event ingestion (\<open>app.js\<close>)\<close>

text \<open>
  The dispatcher's state: the three collections, whether a broadcast function was
  injected (\<open>setBroadcastFunction\<close>), and the trace of outbound effects. Handlers run
  one after another here; interleaving of handlers suspended on I/O is not modelled.
\<close>

record app_state =
  watchlist :: "watch_doc list"
  messages :: "message_doc list"
  groupSettings :: "group_settings_doc list"
  broadcastFn :: bool
  trace :: "effect list"

definition broadcast :: "string \<Rightarrow> json \<Rightarrow> app_state \<Rightarrow> app_state" where
  "broadcast event data s =
     (if broadcastFn s then s\<lparr>trace := trace s @ [Broadcast event data]\<rparr> else s)"

text \<open>
  The session client as the handlers use it: \<open>None\<close> from \<open>getContactById\<close> or
  \<open>getChatById\<close> says that the call rejects.
\<close>

record wa_client =
  getContactById :: "string \<Rightarrow> wa_contact option"
  getChatById :: "string \<Rightarrow> wa_chat option"

text \<open>
  A handler that can throw returns the error with the state reached at the throw;
  what it saved before stays saved. The handlers below run from start to end without
  another handler in between; the subsection on overlapping handlers takes
  \<open>handleMessage\<close> apart at its awaits.
\<close>

definition handleMessage :: "int \<Rightarrow> wa_message \<Rightarrow> app_state \<Rightarrow> js_error option \<times> app_state" where
  "handleMessage now message s =
     (let cid = msg_from message in
      if str_includes cid ''@g.us'' \<and> msg_getChat message = None
      then (Some (Rejected ''getChat''), s)
      else case load_watched cid (watchlist s) of
             Some (i, watchlistItem) \<Rightarrow>
               (case updateLastMessage now message watchlistItem of
                  Inl err \<Rightarrow> (Some err, s)
                | Inr edited \<Rightarrow>
                    (let s1 = s\<lparr>watchlist := save_item i edited (watchlist s)\<rparr>
                     in case logMessage now message (messages s1) of
                          Inl err \<Rightarrow> (Some err, s1)
                        | Inr (logged, coll) \<Rightarrow>
                            (None,
                             broadcast WS_MESSAGE_NEW (formatMessage now message)
                               (broadcast WS_WATCHLIST_MESSAGE
                                  (JObj [(''chatId'', JStr cid),
                                         (''message'', formatMessage now message)])
                                  (s1\<lparr>messages := coll\<rparr>)))))
           | None \<Rightarrow> (None, broadcast WS_MESSAGE_NEW (formatMessage now message) s))"

definition handleMessageCreate ::
  "int \<Rightarrow> wa_message \<Rightarrow> app_state \<Rightarrow> js_error option \<times> app_state" where
  "handleMessageCreate now message s =
     (if msg_fromMe message then
        (let cid = msg_to message in
         case load_watched cid (watchlist s) of
           Some (i, watchlistItem) \<Rightarrow>
             (case updateLastMessage now message watchlistItem of
                Inl err \<Rightarrow> (Some err, s)
              | Inr edited \<Rightarrow>
                  (let s1 = s\<lparr>watchlist := save_item i edited (watchlist s)\<rparr>
                   in case logMessage now message (messages s1) of
                        Inl err \<Rightarrow> (Some err, s1)
                      | Inr (logged, coll) \<Rightarrow>
                          (None,
                           broadcast WS_WATCHLIST_MESSAGE
                             (JObj [(''chatId'', JStr cid),
                                    (''message'', formatMessage now message)])
                             (s1\<lparr>messages := coll\<rparr>))))
         | None \<Rightarrow> (None, s))
      else (None, s))"

text \<open>
  \<open>ackLabel ack\<close> is \<open>["error", "pending", "sent", "received", "read", "played"][ack + 1]\<close>:
  \<open>undefined\<close> outside the list.
\<close>

definition ackLabel :: "int \<Rightarrow> json" where
  "ackLabel a =
     (let labels = [''error'', ''pending'', ''sent'', ''received'', ''read'', ''played''] in
      if 0 \<le> a + 1 \<and> a + 1 < int (length labels) then JStr (labels ! nat (a + 1))
      else JUndefined)"

definition handleMessageAck :: "int \<Rightarrow> wa_message \<Rightarrow> int \<Rightarrow> app_state \<Rightarrow> app_state" where
  "handleMessageAck now message a s =
     (let mid = msg_id message in
      broadcast WS_MESSAGE_ACK
        (JObj [(''messageId'', JStr mid), (''ack'', JNum a), (''ackLabel'', ackLabel a)])
        (s\<lparr>messages := findOneAndUpdate_message now mid (\<lambda>d. d\<lparr>ack := a\<rparr>) (messages s)\<rparr>))"

definition handleMessageRevoke ::
  "int \<Rightarrow> wa_message \<Rightarrow> wa_message option \<Rightarrow> app_state \<Rightarrow> app_state" where
  "handleMessageRevoke now message revokedMsg s =
     (case revokedMsg of
        Some revoked \<Rightarrow>
          (let mid = msg_id revoked in
           broadcast WS_MESSAGE_REVOKED (JObj [(''messageId'', JStr mid)])
             (s\<lparr>messages :=
                  findOneAndUpdate_message now mid
                    (\<lambda>d. d\<lparr>isDeleted := True, body := tombstone\<rparr>) (messages s)\<rparr>))
      | None \<Rightarrow> s)"

definition handleMessageEdit ::
  "int \<Rightarrow> wa_message \<Rightarrow> string \<Rightarrow> string \<Rightarrow> app_state \<Rightarrow> app_state" where
  "handleMessageEdit now message newBody oldBody s =
     (let mid = msg_id message in
      broadcast WS_MESSAGE_EDIT
        (JObj [(''messageId'', JStr mid), (''newBody'', JStr newBody),
               (''oldBody'', JStr oldBody)])
        (s\<lparr>messages :=
             findOneAndUpdate_message now mid
               (\<lambda>d. d\<lparr>body := newBody, isEdited := True\<rparr>) (messages s)\<rparr>))"

text \<open>
  A non-empty emoji is \<open>$push\<close>ed onto the stored list; an empty one \<open>$pull\<close>s every
  entry of the sender.
\<close>

definition handleMessageReaction :: "int \<Rightarrow> wa_reaction \<Rightarrow> app_state \<Rightarrow> app_state" where
  "handleMessageReaction now reaction s =
     (let formattedReaction = formatReaction now reaction;
          mid = rx_msgId reaction;
          coll =
            (if rx_reaction reaction \<noteq> [] then
               findOneAndUpdate_message now mid
                 (\<lambda>d. d\<lparr>reactions := reactions d
                          @ [\<lparr>emoji = rx_reaction reaction, senderId = rx_senderId reaction,
                              reactedAt = now\<rparr>]\<rparr>)
                 (messages s)
             else
               findOneAndUpdate_message now mid
                 (\<lambda>d. d\<lparr>reactions :=
                          filter (\<lambda>r. senderId r \<noteq> rx_senderId reaction) (reactions d)\<rparr>)
                 (messages s))
      in broadcast WS_MESSAGE_REACTION formattedReaction (s\<lparr>messages := coll\<rparr>))"

subsection \<open>Group join and the welcome trigger\<close>

text \<open>
  The loop over the joined ids. The contact is pushed onto \<open>mentions\<close> and, when
  \<open>mentionUser\<close> is set, the two \<open>replace\<close> calls run in the order of the source:
  first the pattern \<open>{user}\<close>, then the same pattern behind an at sign (\<open>CHR 0x40\<close>). A
  missing client or a rejected lookup is caught per member and skipped.
\<close>

fun resolve_mentions ::
  "wa_client option \<Rightarrow> auto_message_config \<Rightarrow> string list \<Rightarrow> string \<times> wa_contact list
   \<Rightarrow> string \<times> wa_contact list" where
  "resolve_mentions cl config [] acc = acc"
| "resolve_mentions cl config (i # ids) (msg, mentions) =
     resolve_mentions cl config ids
       (case cl of
          None \<Rightarrow> (msg, mentions)
        | Some c \<Rightarrow>
            (case getContactById c i of
               None \<Rightarrow> (msg, mentions)
             | Some contact \<Rightarrow>
                 (let handle = ''@'' @ or_str (number contact) (contact_user contact)
                  in ((if mentionUser config
                       then replace (replace msg ''{user}'' handle) (CHR 0x40 # ''{user}'') handle
                       else msg),
                      mentions @ [contact]))))"

definition rules_header :: string where
  "rules_header =
     [CHR 0x0A, CHR 0x0A, CHR 0xF0, CHR 0x9F, CHR 0x93, CHR 0x8B] @ '' *Group Rules*:'' @ [CHR 0x0A]"

definition send_welcome ::
  "wa_client option \<Rightarrow> group_settings_doc \<Rightarrow> auto_message_config \<Rightarrow> string \<Rightarrow> string list
   \<Rightarrow> app_state \<Rightarrow> app_state" where
  "send_welcome cl settings config gid joinedIds s =
     (let s1 = s\<lparr>trace := trace s @ [Delay (if delay config \<noteq> 0 then delay config else 3000)]\<rparr>;
          (msg, mentions) = resolve_mentions cl config joinedIds (cfg_message config, []);
          msg' = (if includeGroupRules config \<and> groupRules settings \<noteq> []
                  then msg @ rules_header @ groupRules settings else msg)
      in case cl of
           None \<Rightarrow> s1
         | Some c \<Rightarrow>
             (case getChatById c gid of
                None \<Rightarrow> s1
              | Some chat \<Rightarrow>
                  s1\<lparr>trace := trace s1
                       @ [SendMessage gid msg' (if mentionUser config then mentions else [])]\<rparr>))"

definition handleGroupJoin ::
  "int \<Rightarrow> wa_client option \<Rightarrow> wa_notification \<Rightarrow> app_state \<Rightarrow> app_state" where
  "handleGroupJoin now cl notification s =
     (let gid = n_chatId notification;
          joinedIds = n_recipientIds notification;
          s1 = broadcast WS_GROUP_JOIN (formatGroupNotification now notification) s;
          s2 = (case findOne_settings gid (groupSettings s1) of
                  Some settings \<Rightarrow>
                    (case am_welcome settings of
                       Some config \<Rightarrow>
                         (if enabled config then send_welcome cl settings config gid joinedIds s1
                          else s1)
                     | None \<Rightarrow> s1)
                | None \<Rightarrow> s1)
      in case findOne_watched gid (watchlist s2) of
           Some watchlistItem \<Rightarrow>
             broadcast WS_WATCHLIST_UPDATE
               (JObj [(''chatId'', JStr gid), (''event'', JStr ''member_join''),
                      (''members'', JArr (map JStr joinedIds))])
               s2
         | None \<Rightarrow> s2)"

subsection \<open>The dispatcher\<close>

text \<open>
  Each listener wraps its handler in \<open>try\<close>/\<open>catch\<close>: an error is logged and dropped, and
  the next event is handled from the state reached.
\<close>

datatype wa_event =
    On_message wa_message
  | On_message_create wa_message
  | On_message_ack wa_message int
  | On_message_revoke_everyone wa_message "wa_message option"
  | On_message_edit wa_message string string
  | On_message_reaction wa_reaction
  | On_group_join wa_notification

fun on_event :: "wa_client option \<Rightarrow> int \<times> wa_event \<Rightarrow> app_state \<Rightarrow> app_state" where
  "on_event cl (now, On_message m) s = snd (handleMessage now m s)"
| "on_event cl (now, On_message_create m) s = snd (handleMessageCreate now m s)"
| "on_event cl (now, On_message_ack m a) s = handleMessageAck now m a s"
| "on_event cl (now, On_message_revoke_everyone m r) s = handleMessageRevoke now m r s"
| "on_event cl (now, On_message_edit m newBody oldBody) s = handleMessageEdit now m newBody oldBody s"
| "on_event cl (now, On_message_reaction r) s = handleMessageReaction now r s"
| "on_event cl (now, On_group_join n) s = handleGroupJoin now cl n s"

definition dispatch :: "wa_client option \<Rightarrow> (int \<times> wa_event) list \<Rightarrow> app_state \<Rightarrow> app_state" where
  "dispatch cl evs s = foldl (\<lambda>s ev. on_event cl ev s) s evs"

subsection \<open>Handlers that overlap\<close>

text \<open>
  A listener is an async function and the emitter does not wait for it: the handler of
  the next event starts while an earlier one is suspended at an \<open>await\<close>. Between two
  awaits a handler runs alone, and each awaited store operation is atomic. So
  \<open>handleMessage\<close> is a sequence of steps, one per awaited operation: the chat lookup
  (group ids only), the registry \<open>findOne\<close>, the \<open>save()\<close> inside \<open>updateLastMessage\<close>,
  and the \<open>findOne\<close> and the \<open>create\<close> inside \<open>logMessage\<close>. The stage of a handler in
  flight names the operation it waits for; \<open>At_save\<close> holds the position and the edited
  copy of the item that \<open>findOne\<close> loaded. A \<open>save()\<close> that rejects writes nothing, so the
  handler is settled with the error as soon as the copy is known to be invalid.
\<close>

datatype stage =
    At_getChat
  | At_findOne
  | At_save nat watch_doc
  | At_logMessage_findOne
  | At_logMessage_create
  | Settled "js_error option"

record task =
  task_now :: int
  task_message :: wa_message
  task_stage :: stage

definition handler_start :: "int \<Rightarrow> wa_message \<Rightarrow> task" where
  "handler_start now message =
     \<lparr>task_now = now, task_message = message,
      task_stage = (if str_includes (msg_from message) ''@g.us'' then At_getChat
                    else At_findOne)\<rparr>"

text \<open>The two broadcasts that end the watched branch of \<open>handleMessage\<close>.\<close>

definition announce :: "int \<Rightarrow> wa_message \<Rightarrow> app_state \<Rightarrow> app_state" where
  "announce now message s =
     broadcast WS_MESSAGE_NEW (formatMessage now message)
       (broadcast WS_WATCHLIST_MESSAGE
          (JObj [(''chatId'', JStr (msg_from message)),
                 (''message'', formatMessage now message)])
          s)"

definition handler_step :: "task \<Rightarrow> app_state \<Rightarrow> task \<times> app_state" where
  "handler_step t s =
     (let now = task_now t; message = task_message t; cid = msg_from message in
      case task_stage t of
        At_getChat \<Rightarrow>
          (case msg_getChat message of
             None \<Rightarrow> (t\<lparr>task_stage := Settled (Some (Rejected ''getChat''))\<rparr>, s)
           | Some chat \<Rightarrow> (t\<lparr>task_stage := At_findOne\<rparr>, s))
      | At_findOne \<Rightarrow>
          (case load_watched cid (watchlist s) of
             Some (i, watchlistItem) \<Rightarrow>
               (case updateLastMessage now message watchlistItem of
                  Inl err \<Rightarrow> (t\<lparr>task_stage := Settled (Some err)\<rparr>, s)
                | Inr edited \<Rightarrow> (t\<lparr>task_stage := At_save i edited\<rparr>, s))
           | None \<Rightarrow>
               (t\<lparr>task_stage := Settled None\<rparr>,
                broadcast WS_MESSAGE_NEW (formatMessage now message) s))
      | At_save i edited \<Rightarrow>
          (t\<lparr>task_stage := At_logMessage_findOne\<rparr>,
           s\<lparr>watchlist := save_item i edited (watchlist s)\<rparr>)
      | At_logMessage_findOne \<Rightarrow>
          (if msg_id message = []
           then (t\<lparr>task_stage := Settled (Some (CastError ''messageId''))\<rparr>, s)
           else case findOne_message (msg_id message) (messages s) of
                  Some existingMessage \<Rightarrow>
                    (t\<lparr>task_stage := Settled None\<rparr>, announce now message s)
                | None \<Rightarrow> (t\<lparr>task_stage := At_logMessage_create\<rparr>, s))
      | At_logMessage_create \<Rightarrow>
          (case create_message now (new_message_doc now message) (messages s) of
             Inl err \<Rightarrow> (t\<lparr>task_stage := Settled (Some err)\<rparr>, s)
           | Inr (logged, coll) \<Rightarrow>
               (t\<lparr>task_stage := Settled None\<rparr>, announce now message (s\<lparr>messages := coll\<rparr>)))
      | Settled outcome \<Rightarrow> (t, s))"

text \<open>
  A run of the event loop: a \<open>message\<close> event arrives and its handler joins the handlers
  in flight, or the handler at position \<open>k\<close> is resumed for its next step.
\<close>

datatype move = Arrive int wa_message | Resume nat

fun play :: "move \<Rightarrow> app_state \<times> task list \<Rightarrow> app_state \<times> task list" where
  "play (Arrive now message) (s, ts) = (s, ts @ [handler_start now message])"
| "play (Resume k) (s, ts) =
     (if k < length ts
      then (case handler_step (ts ! k) s of (t', s') \<Rightarrow> (s', ts[k := t']))
      else (s, ts))"

definition overlapped :: "move list \<Rightarrow> app_state \<Rightarrow> app_state \<times> task list" where
  "overlapped moves s = foldl (\<lambda>st mv. play mv st) (s, []) moves"

text \<open>
  Handlers that run one at a time: each arrival is followed by the five steps that
  settle its handler before the next message arrives.
\<close>

fun one_at_a_time :: "nat \<Rightarrow> (int \<times> wa_message) list \<Rightarrow> move list" where
  "one_at_a_time k [] = []"
| "one_at_a_time k ((now, message) # rest) =
     Arrive now message # replicate 5 (Resume k) @ one_at_a_time (Suc k) rest"

definition message_events :: "(int \<times> wa_message) list \<Rightarrow> (int \<times> wa_event) list" where
  "message_events ms = map (\<lambda>(now, message). (now, On_message message)) ms"

text \<open>
  The store side of \<open>WatchlistService.markAsRead\<close>, on the normalized id:
  \<open>getWatchlistItem\<close> (which throws when the chat is not watched), then
  \<open>item.markAsRead()\<close>. The \<open>sendSeen\<close> call to the session in between has its failure
  caught and touches no collection.
\<close>

definition markAsRead_item :: "int \<Rightarrow> string \<Rightarrow> app_state \<Rightarrow> js_error + app_state" where
  "markAsRead_item now c s =
     (case findOne_watched c (watchlist s) of
        None \<Rightarrow> Inl (Rejected ''Chat not found in watchlist'')
      | Some item \<Rightarrow> Inr (s\<lparr>watchlist := update_first (watched c) (markAsRead now) (watchlist s)\<rparr>))"

section \<open>Observations used in the statements\<close>

text \<open>The sends and the broadcasts of one event name within a trace.\<close>

fun is_send :: "effect \<Rightarrow> bool" where
  "is_send (SendMessage g text mentions) = True"
| "is_send _ = False"

fun broadcast_named :: "string \<Rightarrow> effect \<Rightarrow> bool" where
  "broadcast_named name (Broadcast event data) = (event = name)"
| "broadcast_named name _ = False"

text \<open>\<open>settings?.autoMessages?.welcome?.enabled\<close> for the active settings of a group.\<close>

definition welcome_trigger_enabled :: "string \<Rightarrow> app_state \<Rightarrow> bool" where
  "welcome_trigger_enabled g s =
     (case findOne_settings g (groupSettings s) of
        Some settings \<Rightarrow> (case am_welcome settings of Some config \<Rightarrow> enabled config | None \<Rightarrow> False)
      | None \<Rightarrow> False)"

text \<open>The unread counter of the watched entry of a conversation.\<close>

definition unread :: "string \<Rightarrow> app_state \<Rightarrow> int option" where
  "unread c s = map_option unreadCount (findOne_watched c (watchlist s))"

text \<open>
  A delivery of an inbound non-self message of conversation \<open>c\<close> that reaches the
  registry update: a \<open>message\<close> event from \<open>c\<close>, not from the session's own account,
  whose handler is not cut short before \<open>save()\<close> succeeds (for a group id the chat
  lookup that precedes the registry lookup resolves, and the message's timestamp is a
  valid date). Each delivered event is one delivery, also when the same message is
  delivered again. A self-sent echo arrives as a \<open>message_create\<close> event and is not one
  of these.
\<close>

fun inbound :: "string \<Rightarrow> int \<times> wa_event \<Rightarrow> bool" where
  "inbound c (now, On_message m) =
     (msg_from m = c \<and> \<not> msg_fromMe m
      \<and> (str_includes c ''@g.us'' \<longrightarrow> msg_getChat m \<noteq> None)
      \<and> valid_date (message_date now (msg_timestamp m)))"
| "inbound c (now, _) = False"

text \<open>
  The claim's words for a page: the \<open>n\<close> most recent non-deleted messages of a
  conversation, oldest first.
\<close>

definition most_recent :: "nat \<Rightarrow> string \<Rightarrow> message_doc list \<Rightarrow> message_doc list" where
  "most_recent n c coll =
     (let live = sort_key timestamp (filter (\<lambda>d. chatId d = c \<and> \<not> isDeleted d) coll)
      in drop (length live - n) live)"

text \<open>
  A stored message lies within the page of a query when it matches the query
  (conversation, deleted filter, cursor) and the limit is 0 or at least the number of
  matching messages that are at least as recent, itself included.
\<close>

definition within_page :: "string \<Rightarrow> query_options \<Rightarrow> message_doc \<Rightarrow> message_doc list \<Rightarrow> bool" where
  "within_page c options d coll =
     (chat_query c options d
      \<and> (let n = (case limit options of Some k \<Rightarrow> k | None \<Rightarrow> 50)
         in n = 0
            \<or> length (filter (\<lambda>x. chat_query c options x \<and> timestamp d \<le> timestamp x) coll) \<le> n))"

section \<open>Example data\<close>

definition example_message :: "string \<Rightarrow> string \<Rightarrow> string \<Rightarrow> int \<Rightarrow> wa_message" where
  "example_message mid sender recipient ts =
     \<lparr>msg_id = mid, msg_body = ''hello'', msg_type = ''chat'', msg_timestamp = ts,
      msg_from = sender, msg_to = recipient, msg_author = None, msg_fromMe = False,
      msg_hasMedia = False, msg_hasQuotedMsg = False, msg_isForwarded = False,
      msg_forwardingScore = 0, msg_isStarred = False, msg_isStatus = False,
      msg_broadcast = False, msg_mentionedIds = [], msg_groupMentions = [],
      msg_ack = Some 1, msg_hasReaction = False, msg_links = [], msg_vCards = [],
      msg_location = None, msg_deviceType = ''android'',
      msg_getChat = Some \<lparr>chat_name = ''Team''\<rparr>\<rparr>"

definition example_doc :: "string \<Rightarrow> string \<Rightarrow> int \<Rightarrow> message_doc" where
  "example_doc mid chat ts = new_message_doc 0 (example_message mid chat ''me@c.us'' ts)"

definition example_chat_data :: "string \<Rightarrow> chat_data" where
  "example_chat_data chat =
     \<lparr>cd_chatId = chat, cd_chatName = ''Team'', cd_chatType = ''group'',
      cd_profilePicUrl = None,
      cd_metadata = \<lparr>participantCount = 3, md_description = [], isReadOnly = False,
                     isMuted = False\<rparr>,
      cd_lastMessage = None\<rparr>"

definition example_watch :: "string \<Rightarrow> bool \<Rightarrow> int \<Rightarrow> watch_doc" where
  "example_watch chat active ord =
     (new_watch_doc 0 (example_chat_data chat) ord)\<lparr>w_isActive := active\<rparr>"

definition example_state :: "watch_doc list \<Rightarrow> message_doc list \<Rightarrow> app_state" where
  "example_state ws ms =
     \<lparr>watchlist = ws, messages = ms, groupSettings = [], broadcastFn = True, trace = []\<rparr>"

definition thumbs_up :: string where
  "thumbs_up = [CHR 0xF0, CHR 0x9F, CHR 0x91, CHR 0x8D]"

definition red_heart :: string where
  "red_heart = [CHR 0xE2, CHR 0x9D, CHR 0xA4]"

definition example_reaction :: "string \<Rightarrow> string \<Rightarrow> string \<Rightarrow> wa_reaction" where
  "example_reaction mid sender e =
     \<lparr>rx_id = ''r-'' @ mid, rx_reaction = e, rx_senderId = sender, rx_timestamp = 20,
      rx_orphaned = False, rx_msgId = mid\<rparr>"

definition member_X :: wa_contact where
  "member_X = \<lparr>contact_id = ''2348012345678@c.us'', contact_user = ''2348012345678'',
               number = ''2348012345678''\<rparr>"

definition example_client :: wa_client where
  "example_client =
     \<lparr>getContactById = (\<lambda>i. if i = contact_id member_X then Some member_X else None),
      getChatById = (\<lambda>g. Some \<lparr>chat_name = ''Team''\<rparr>)\<rparr>"

definition example_join :: wa_notification where
  "example_join =
     \<lparr>n_id = ''n1'', n_type = ''add'', n_chatId = ''G@g.us'', n_author = None,
      n_recipientIds = [''2348012345678@c.us''], n_timestamp = 30\<rparr>"

definition example_settings :: "bool \<Rightarrow> group_settings_doc" where
  "example_settings on =
     \<lparr>groupId = ''G@g.us'', groupName = ''Team'',
      am_welcome = Some \<lparr>enabled = on, cfg_message = ''Hi '' @ CHR 0x40 # ''{user}!'',
                         includeGroupRules = False,
                         mentionUser = True, includeMedia = False, mediaUrl = None, delay = 0\<rparr>,
      am_farewell = None, am_rules = None, groupRules = [], gs_isActive = True\<rparr>"

text \<open>
  Three inbound messages of the group at instants 10 < 20 < 30 (seconds), with one
  self-sent echo in between.
\<close>

definition example_traffic :: "(int \<times> wa_event) list" where
  "example_traffic =
     [(10001, On_message (example_message ''m1'' ''G@g.us'' ''me@c.us'' 10)),
      (15001, On_message_create ((example_message ''e1'' ''me@c.us'' ''G@g.us'' 15)\<lparr>msg_fromMe := True\<rparr>)),
      (20001, On_message (example_message ''m2'' ''G@g.us'' ''me@c.us'' 20)),
      (30001, On_message (example_message ''m3'' ''G@g.us'' ''me@c.us'' 30))]"

text \<open>
  Two inbound messages of the group whose handlers overlap: both arrive, both have
  their chat lookup and their registry \<open>findOne\<close> answered, then both save, then each
  logs its message.
\<close>

definition example_overlap :: "move list" where
  "example_overlap =
     [Arrive 10001 (example_message ''m1'' ''G@g.us'' ''me@c.us'' 10),
      Arrive 10002 (example_message ''m2'' ''G@g.us'' ''me@c.us'' 10),
      Resume 0, Resume 1,
      Resume 0, Resume 1,
      Resume 0, Resume 1,
      Resume 0, Resume 0,
      Resume 1, Resume 1]"

text \<open>Fifty later messages of the group, at instants 101, 102, ..., 150 (seconds).\<close>

definition later_messages :: "message_doc list" where
  "later_messages =
     map (\<lambda>i. example_doc (''n'' @ replicate i CHR ''x'') ''G@g.us'' (101 + int i)) [0..<50]"

section \<open>Results\<close>

text \<open>
  C9. The claim: in every reachable state the pending pairing payload returned by
  \<open>getCurrentQR\<close> is non-null only in \<open>QR_READY\<close>. The listeners for
  \<open>authenticated\<close> and \<open>disconnected\<close> clear \<open>currentQR\<close>, but re-initialization
  and the \<open>auth_failure\<close> listener leave it: after a pairing payload was produced,
  calling \<open>initializeClient\<close> again gives \<open>INITIALIZING\<close> with the old payload, and an
  authentication failure gives \<open>FAILED\<close> with the old payload.
\<close>

theorem stale_pairing_payload_outside_QR_READY:
  "getClientStatus (session_run [Call_initializeClient, On_qr ''2@pairing'', Call_initializeClient]
       initial_session) = INITIALIZING
   \<and> getCurrentQR (session_run [Call_initializeClient, On_qr ''2@pairing'', Call_initializeClient]
       initial_session) = Some ''2@pairing''
   \<and> getClientStatus (session_run [Call_initializeClient, On_qr ''2@pairing'', On_auth_failure ''denied'']
       initial_session) = FAILED
   \<and> getCurrentQR (session_run [Call_initializeClient, On_qr ''2@pairing'', On_auth_failure ''denied'']
       initial_session) = Some ''2@pairing''"
  by (simp add: session_run_def initial_session_def initializeClient_def initializeAsync_def
      emit_def getClientStatus_def getCurrentQR_def)

subsection \<open>Collections: first match and in-place update\<close>

lemma find_update_first_same:
  "(\<And>x. P (f x) = P x) \<Longrightarrow> find P (update_first P f xs) = map_option f (find P xs)"
  by (induction xs) auto

lemma find_update_first_other:
  "(\<And>x. Q x \<Longrightarrow> \<not> P x \<and> \<not> P (f x)) \<Longrightarrow> find P (update_first Q f xs) = find P xs"
  by (induction xs) auto

lemma map_update_first:
  "(\<And>x. g (f x) = g x) \<Longrightarrow> map g (update_first P f xs) = map g xs"
  by (induction xs) auto

lemma find_None_filter: "find P xs = None \<Longrightarrow> filter P xs = []"
  by (induction xs) (auto split: if_splits)

lemma find_append_None: "find P xs = None \<Longrightarrow> find P (xs @ ys) = find P ys"
  by (induction xs) (auto split: if_splits)

lemma find_Some_filter_key:
  "distinct (map k xs) \<Longrightarrow> find (\<lambda>d. k d = v) xs = Some x \<Longrightarrow> filter (\<lambda>d. k d = v) xs = [x]"
proof (induction xs)
  case Nil
  then show ?case by simp
next
  case (Cons y ys)
  show ?case
  proof (cases "k y = v")
    case True
    with Cons.prems have "x = y" by simp
    moreover from True Cons.prems have "filter (\<lambda>d. k d = v) ys = []"
      by (auto simp: filter_empty_conv) (metis image_eqI)
    ultimately show ?thesis using True by simp
  next
    case False
    with Cons show ?thesis by simp
  qed
qed

lemma findOne_after_update:
  "(\<And>d. messageId (upd d) = messageId d) \<Longrightarrow>
   findOne_message mid (findOneAndUpdate_message now mid upd coll)
     = map_option (\<lambda>d. (upd d)\<lparr>updatedAt := now\<rparr>) (findOne_message mid coll)"
  unfolding findOne_message_def findOneAndUpdate_message_def
  by (rule find_update_first_same) simp

subsection \<open>Acknowledgements\<close>

lemma updateAck_overwrites:
  "a \<in> set MESSAGE_ACK \<Longrightarrow> updateAck now a d = Inr (d\<lparr>ack := a, updatedAt := now\<rparr>)"
  by (simp add: updateAck_def)

text \<open>
  C10. An acknowledgement event overwrites the stored level with the level it carries,
  whatever the stored level was (a lower level regresses it), and the broadcast carries
  the message id, the level and the label found at position \<open>ack + 1\<close> of the list
  error, pending, sent, received, read, played.
\<close>

theorem ack_latest_wins:
  "findOne_message (msg_id message) (messages s) = Some d \<Longrightarrow> broadcastFn s \<Longrightarrow>
   findOne_message (msg_id message) (messages (handleMessageAck now message a s))
     = Some (d\<lparr>ack := a, updatedAt := now\<rparr>)
   \<and> trace (handleMessageAck now message a s)
     = trace s @ [Broadcast ''message:ack''
         (JObj [(''messageId'', JStr (msg_id message)), (''ack'', JNum a),
                (''ackLabel'', ackLabel a)])]
   \<and> ackLabel (- 1) = JStr ''error'' \<and> ackLabel 0 = JStr ''pending''
   \<and> ackLabel 1 = JStr ''sent'' \<and> ackLabel 2 = JStr ''received''
   \<and> ackLabel 3 = JStr ''read'' \<and> ackLabel 4 = JStr ''played''"
  by (simp add: handleMessageAck_def Let_def broadcast_def findOne_after_update
      WS_EVENTS_defs ackLabel_def)

text \<open>A stored level of 3 (read) followed by an event of level 2 (received) leaves 2.\<close>

theorem ack_latest_wins_witness:
  "findOne_message ''m1''
      (messages (example_state [] [(example_doc ''m1'' ''G@g.us'' 10)\<lparr>ack := 3\<rparr>]))
     = Some ((example_doc ''m1'' ''G@g.us'' 10)\<lparr>ack := 3\<rparr>)
   \<and> broadcastFn (example_state [] [(example_doc ''m1'' ''G@g.us'' 10)\<lparr>ack := 3\<rparr>])
   \<and> findOne_message ''m1''
        (messages (handleMessageAck 99 (example_message ''m1'' ''G@g.us'' ''me@c.us'' 10) 2
           (example_state [] [(example_doc ''m1'' ''G@g.us'' 10)\<lparr>ack := 3\<rparr>])))
     = Some ((example_doc ''m1'' ''G@g.us'' 10)\<lparr>ack := 2, updatedAt := 99\<rparr>)"
proof -
  let ?s = "example_state [] [(example_doc ''m1'' ''G@g.us'' 10)\<lparr>ack := 3\<rparr>]"
  let ?m = "example_message ''m1'' ''G@g.us'' ''me@c.us'' 10"
  have h1: "findOne_message (msg_id ?m) (messages ?s)
              = Some ((example_doc ''m1'' ''G@g.us'' 10)\<lparr>ack := 3\<rparr>)"
    by (simp add: findOne_message_def example_state_def example_doc_def example_message_def
        new_message_doc_def)
  have h2: "broadcastFn ?s"
    by (simp add: example_state_def)
  from ack_latest_wins [OF h1 h2, of 99 2] h1 h2 show ?thesis
    by (simp add: example_message_def)
qed

subsection \<open>Idempotent logging\<close>

lemma logMessage_keeps_distinct:
  "distinct (map messageId coll) \<Longrightarrow> logMessage now message coll = Inr (r, coll')
   \<Longrightarrow> distinct (map messageId coll')"
  apply (auto simp: logMessage_def create_message_def Let_def findOne_message_def
      split: if_splits option.splits)
  apply (auto simp: find_None_iff)
  done

lemma logMessage_creates:
  "validate_message (new_message_doc now message)
   \<Longrightarrow> \<exists>r coll'. logMessage now message coll = Inr (r, coll')"
  by (auto simp: logMessage_def create_message_def Let_def validate_message_def
      new_message_doc_def split: option.splits)

text \<open>
  C2. When a call of \<open>logMessage\<close> returns a record, a second call for an event with the
  same message id, at any later instant, returns that same record and leaves the
  collection as the first call left it; the collection then holds exactly one record
  with that id. (The collection has a unique index on the message id.)
\<close>

theorem logMessage_idempotent:
  assumes inv: "distinct (map messageId coll)"
    and first: "logMessage now message coll = Inr (r, coll')"
    and same: "msg_id message' = msg_id message"
  shows "logMessage now' message' coll' = Inr (r, coll')
         \<and> filter (\<lambda>d. messageId d = msg_id message) coll' = [r]"
proof (cases "findOne_message (msg_id message) coll")
  case None
  from first have ne: "msg_id message \<noteq> []"
    by (auto simp: logMessage_def split: if_splits)
  define d where "d = (new_message_doc now message)\<lparr>createdAt := now, updatedAt := now\<rparr>"
  from first None ne have r: "r = d" and c: "coll' = coll @ [d]"
    by (auto simp: logMessage_def create_message_def Let_def d_def split: if_splits)
  have key: "messageId d = msg_id message"
    by (simp add: d_def new_message_doc_def)
  from None have "find (\<lambda>x. messageId x = msg_id message) (coll @ [d]) = Some d"
    by (simp add: findOne_message_def find_append_None key)
  moreover from None have "filter (\<lambda>x. messageId x = msg_id message) coll = []"
    by (simp add: findOne_message_def find_None_filter)
  ultimately show ?thesis using r c ne same key
    by (simp add: logMessage_def findOne_message_def)
next
  case (Some e)
  from first have ne: "msg_id message \<noteq> []"
    by (auto simp: logMessage_def split: if_splits)
  from first Some ne have r: "r = e" and c: "coll' = coll"
    by (auto simp: logMessage_def)
  from inv Some have "filter (\<lambda>d. messageId d = msg_id message) coll = [e]"
    unfolding findOne_message_def by (rule find_Some_filter_key)
  with Some r c ne same show ?thesis
    by (simp add: logMessage_def)
qed

theorem logMessage_idempotent_witness:
  "distinct (map messageId ([] :: message_doc list))
   \<and> logMessage 5 (example_message ''m1'' ''G@g.us'' ''me@c.us'' 10) []
       = Inr (new_message_doc 5 (example_message ''m1'' ''G@g.us'' ''me@c.us'' 10),
              [new_message_doc 5 (example_message ''m1'' ''G@g.us'' ''me@c.us'' 10)])
   \<and> logMessage 6 ((example_message ''m1'' ''G@g.us'' ''me@c.us'' 10)\<lparr>msg_body := ''again''\<rparr>)
        [new_message_doc 5 (example_message ''m1'' ''G@g.us'' ''me@c.us'' 10)]
       = Inr (new_message_doc 5 (example_message ''m1'' ''G@g.us'' ''me@c.us'' 10),
              [new_message_doc 5 (example_message ''m1'' ''G@g.us'' ''me@c.us'' 10)])"
proof -
  let ?m = "example_message ''m1'' ''G@g.us'' ''me@c.us'' 10"
  have h1: "distinct (map messageId ([] :: message_doc list))"
    by simp
  have h2: "logMessage 5 ?m [] = Inr (new_message_doc 5 ?m, [new_message_doc 5 ?m])"
    by (simp add: logMessage_def findOne_message_def create_message_def validate_message_def
        new_message_doc_def example_message_def MESSAGE_TYPES_def MESSAGE_ACK_def or_str_def
        str_includes_def Let_def valid_date_def message_date_def)
  have h3: "msg_id (?m\<lparr>msg_body := ''again''\<rparr>) = msg_id ?m"
    by simp
  from logMessage_idempotent [OF h1 h2 h3, of 6] h1 h2 show ?thesis
    by simp
qed

subsection \<open>Reactions\<close>

lemma addReaction_one_per_sender:
  "length (filter (\<lambda>r. senderId r = sid) (reactions (addReaction now e sid d))) \<le> 1"
  by (simp add: addReaction_def Let_def)

lemma empty_reaction_removes_sender:
  "rx_reaction reaction = [] \<Longrightarrow> findOne_message (rx_msgId reaction) (messages s) = Some d \<Longrightarrow>
   findOne_message (rx_msgId reaction) (messages (handleMessageReaction now reaction s))
     = Some (d\<lparr>reactions := filter (\<lambda>r. senderId r \<noteq> rx_senderId reaction) (reactions d),
              updatedAt := now\<rparr>)"
  by (simp add: handleMessageReaction_def Let_def broadcast_def findOne_after_update)

text \<open>
  C1. The claim: after any sequence of reaction events the stored record holds at most
  one entry per sender. The instance method \<open>addReaction\<close> first drops the sender's old
  entry, but the dispatcher's handler pushes without doing so: two non-empty reactions
  of one sender on a stored message leave two entries of that sender.
\<close>

theorem dispatcher_stores_two_reactions_of_one_sender:
  "map_option (\<lambda>d. map (\<lambda>r. (emoji r, senderId r)) (reactions d))
     (findOne_message ''m1''
        (messages (dispatch None
           [(21, On_message_reaction (example_reaction ''m1'' ''alice@c.us'' thumbs_up)),
            (22, On_message_reaction (example_reaction ''m1'' ''alice@c.us'' red_heart))]
           (example_state [] [example_doc ''m1'' ''G@g.us'' 10]))))
   = Some [(thumbs_up, ''alice@c.us''), (red_heart, ''alice@c.us'')]"
  by (simp add: dispatch_def handleMessageReaction_def Let_def broadcast_def example_state_def
      example_doc_def example_message_def new_message_doc_def example_reaction_def
      thumbs_up_def red_heart_def findOneAndUpdate_message_def findOne_message_def)

subsection \<open>Group join\<close>

text \<open>
  C3. The scenario: welcome trigger enabled, the template \<open>Hi\<close>, a space, an at sign,
  \<open>{user}!\<close>, mention on join, delay 0, one joining member whose contact resolves. The
  claim expects the text
  \<open>Hi @2348012345678!\<close>. The first \<open>replace\<close> swaps \<open>{user}\<close> for the handle that already
  starts with \<open>@\<close>, so the text sent is \<open>Hi @@2348012345678!\<close>, and the second \<open>replace\<close>
  finds nothing left to do. (The wait before the send is 3000 ms, the fallback for a
  delay of 0.)
\<close>

theorem welcome_text_has_doubled_at_sign:
  "trace (handleGroupJoin 31 (Some example_client) example_join
            \<lparr>watchlist = [], messages = [], groupSettings = [example_settings True],
             broadcastFn = True, trace = []\<rparr>)
   = [Broadcast ''group:join'' (formatGroupNotification 31 example_join),
      Delay 3000,
      SendMessage ''G@g.us'' ''Hi @@2348012345678!'' [member_X]]"
  by (simp add: handleGroupJoin_def Let_def broadcast_def WS_EVENTS_defs findOne_settings_def
      send_welcome_def replace_def or_str_def findOne_watched_def example_client_def
      example_join_def example_settings_def member_X_def)

lemma join_trace_when_disabled:
  assumes "\<not> welcome_trigger_enabled (n_chatId n) s" "broadcastFn s"
  shows "trace (handleGroupJoin now cl n s)
    = trace s @ Broadcast WS_GROUP_JOIN (formatGroupNotification now n) #
      (case findOne_watched (n_chatId n) (watchlist s) of
         Some w \<Rightarrow> [Broadcast WS_WATCHLIST_UPDATE
               (JObj [(''chatId'', JStr (n_chatId n)), (''event'', JStr ''member_join''),
                      (''members'', JArr (map JStr (n_recipientIds n)))])]
       | None \<Rightarrow> [])"
  using assms
  by (auto simp: handleGroupJoin_def Let_def broadcast_def welcome_trigger_enabled_def
      split: option.splits)

text \<open>
  C7. When the welcome trigger of the group is disabled, or the group has no active
  settings document, handling a join event adds no send to the trace and adds exactly
  one \<open>group:join\<close> broadcast (a broadcast function being injected).
\<close>

theorem join_without_welcome:
  assumes "\<not> welcome_trigger_enabled (n_chatId n) s" "broadcastFn s"
  shows "filter is_send (trace (handleGroupJoin now cl n s)) = filter is_send (trace s)
     \<and> filter (broadcast_named WS_GROUP_JOIN) (trace (handleGroupJoin now cl n s))
        = filter (broadcast_named WS_GROUP_JOIN) (trace s)
          @ [Broadcast WS_GROUP_JOIN (formatGroupNotification now n)]"
  by (simp add: join_trace_when_disabled [OF assms] WS_EVENTS_defs split: option.splits)

theorem join_without_welcome_witness:
  "\<not> welcome_trigger_enabled (n_chatId example_join)
        \<lparr>watchlist = [], messages = [], groupSettings = [example_settings False],
         broadcastFn = True, trace = []\<rparr>
   \<and> filter is_send (trace (handleGroupJoin 31 (Some example_client) example_join
        \<lparr>watchlist = [], messages = [], groupSettings = [example_settings False],
         broadcastFn = True, trace = []\<rparr>)) = []
   \<and> filter (broadcast_named WS_GROUP_JOIN)
        (trace (handleGroupJoin 31 (Some example_client) example_join
        \<lparr>watchlist = [], messages = [], groupSettings = [example_settings False],
         broadcastFn = True, trace = []\<rparr>))
     = [Broadcast WS_GROUP_JOIN (formatGroupNotification 31 example_join)]"
proof -
  let ?s = "\<lparr>watchlist = [], messages = [], groupSettings = [example_settings False],
             broadcastFn = True, trace = []\<rparr>"
  have h1: "\<not> welcome_trigger_enabled (n_chatId example_join) ?s"
    by (simp add: welcome_trigger_enabled_def findOne_settings_def example_settings_def
        example_join_def)
  have h2: "broadcastFn ?s"
    by simp
  from join_without_welcome [OF h1 h2, of 31 "Some example_client"] h1 show ?thesis
    by simp
qed

subsection \<open>Unread counters\<close>

lemma find_at_Some:
  "find_at P xs = Some (i, x) \<Longrightarrow> find P xs = Some x \<and> i < length xs \<and> xs ! i = x"
  by (induction xs arbitrary: i) (auto split: if_splits)

lemma find_at_None: "find_at P xs = None \<Longrightarrow> find P xs = None"
  by (induction xs) (auto split: if_splits)

lemma find_at_update_first:
  "find_at P xs = Some (i, x) \<Longrightarrow> xs[i := f x] = update_first P f xs"
  by (induction xs arbitrary: i) (auto split: if_splits)

lemma update_first_none: "find P xs = None \<Longrightarrow> update_first P f xs = xs"
  by (induction xs) (auto split: if_splits)

lemma save_item_edited:
  assumes "load_watched c wl = Some (i, w)"
  shows "save_item i (edited_item now m w) wl = update_first (watched c) (edited_item now m) wl"
proof -
  from assms have f: "find_at (watched c) wl = Some (i, w)"
    by (simp add: load_watched_def)
  then have i: "i < length wl" "wl ! i = w"
    by (auto dest: find_at_Some)
  have "w\<lparr>lastMessage := lastMessage (edited_item now m w),
           unreadCount := unreadCount (edited_item now m w),
           w_updatedAt := w_updatedAt (edited_item now m w)\<rparr> = edited_item now m w"
    by (simp add: edited_item_def)
  with i have "save_item i (edited_item now m w) wl = wl[i := edited_item now m w]"
    by (simp add: save_item_def)
  with f show ?thesis
    by (simp add: find_at_update_first)
qed

lemma watched_edited_item [simp]: "watched c (edited_item now m w) = watched c w"
  by (simp add: watched_def edited_item_def)

lemma watched_markAsRead [simp]: "watched c (markAsRead now w) = watched c w"
  by (simp add: watched_def markAsRead_def)

lemma watched_unique: "watched c w \<Longrightarrow> watched c' w \<Longrightarrow> c = c'"
  by (simp add: watched_def)

lemma findOne_watched_update:
  "(\<And>w c. watched c (f w) = watched c w) \<Longrightarrow>
   findOne_watched c (update_first (watched c') f wl)
     = (if c = c' then map_option f (findOne_watched c wl) else findOne_watched c wl)"
  unfolding findOne_watched_def
  by (auto simp: find_update_first_same intro!: find_update_first_other dest: watched_unique)

lemma findOne_watched_edited_item:
  "findOne_watched c (update_first (watched c') (edited_item now m) wl)
     = (if c = c' then map_option (edited_item now m) (findOne_watched c wl)
        else findOne_watched c wl)"
  by (rule findOne_watched_update) simp

lemma findOne_watched_markAsRead:
  "findOne_watched c (update_first (watched c') (markAsRead now) wl)
     = (if c = c' then map_option (markAsRead now) (findOne_watched c wl)
        else findOne_watched c wl)"
  by (rule findOne_watched_update) simp

lemma watchlist_broadcast [simp]: "watchlist (broadcast e d s) = watchlist s"
  by (simp add: broadcast_def)

lemma watchlist_handleMessage:
  "watchlist (snd (handleMessage now m s)) =
     (if (str_includes (msg_from m) ''@g.us'' \<and> msg_getChat m = None)
         \<or> \<not> valid_date (message_date now (msg_timestamp m))
      then watchlist s
      else update_first (watched (msg_from m)) (edited_item now m) (watchlist s))"
proof (cases "load_watched (msg_from m) (watchlist s)")
  case None
  then have "find (watched (msg_from m)) (watchlist s) = None"
    by (simp add: load_watched_def find_at_None)
  with None show ?thesis
    by (simp add: handleMessage_def Let_def update_first_none)
next
  case (Some p)
  obtain i w where p: "p = (i, w)" by (cases p)
  from Some p show ?thesis
    by (simp add: handleMessage_def Let_def updateLastMessage_def save_item_edited
        split: sum.splits prod.splits)
qed

lemma watchlist_handleMessageCreate:
  "watchlist (snd (handleMessageCreate now m s)) =
     (if msg_fromMe m \<and> valid_date (message_date now (msg_timestamp m))
      then update_first (watched (msg_to m)) (edited_item now m) (watchlist s)
      else watchlist s)"
proof (cases "load_watched (msg_to m) (watchlist s)")
  case None
  then have "find (watched (msg_to m)) (watchlist s) = None"
    by (simp add: load_watched_def find_at_None)
  with None show ?thesis
    by (simp add: handleMessageCreate_def Let_def update_first_none)
next
  case (Some p)
  obtain i w where p: "p = (i, w)" by (cases p)
  from Some p show ?thesis
    by (simp add: handleMessageCreate_def Let_def updateLastMessage_def save_item_edited
        split: sum.splits prod.splits)
qed

lemma unread_inbound:
  "inbound c ev \<Longrightarrow> unread c (on_event cl ev s) = map_option (\<lambda>u. u + 1) (unread c s)"
proof (cases ev)
  case (Pair now e)
  assume "inbound c ev"
  with Pair obtain m where e: "e = On_message m" and m: "msg_from m = c" "\<not> msg_fromMe m"
    "str_includes c ''@g.us'' \<longrightarrow> msg_getChat m \<noteq> None"
    "valid_date (message_date now (msg_timestamp m))"
    by (cases e) auto
  show ?thesis
    using m unfolding Pair e
    by (cases "findOne_watched c (watchlist s)")
       (auto simp: unread_def watchlist_handleMessage findOne_watched_edited_item
          edited_item_def)
qed

lemma watchlist_send_welcome [simp]:
  "watchlist (send_welcome cl settings config gid joinedIds s) = watchlist s"
  by (simp add: send_welcome_def Let_def split: option.splits prod.splits)

lemma watchlist_handleGroupJoin [simp]:
  "watchlist (handleGroupJoin now cl n s) = watchlist s"
  by (simp add: handleGroupJoin_def Let_def split: option.splits)

lemma watchlist_message_handlers [simp]:
  "watchlist (handleMessageAck now m a s) = watchlist s"
  "watchlist (handleMessageRevoke now m r s) = watchlist s"
  "watchlist (handleMessageEdit now m newBody oldBody s) = watchlist s"
  "watchlist (handleMessageReaction now rx s) = watchlist s"
  by (simp_all add: handleMessageAck_def handleMessageRevoke_def handleMessageEdit_def
      handleMessageReaction_def Let_def split: option.splits)

lemma unread_not_inbound:
  "\<not> inbound c ev \<Longrightarrow> unread c (on_event cl ev s) = unread c s"
proof (cases ev)
  case (Pair now e)
  assume n: "\<not> inbound c ev"
  show ?thesis
  proof (cases e)
    case (On_message m)
    with n Pair show ?thesis
      by (cases "findOne_watched c (watchlist s)")
         (auto simp: unread_def watchlist_handleMessage findOne_watched_edited_item
            edited_item_def split: option.splits)
  next
    case (On_message_create m)
    with Pair show ?thesis
      by (cases "findOne_watched c (watchlist s)")
         (auto simp: unread_def watchlist_handleMessageCreate findOne_watched_edited_item
            edited_item_def split: option.splits)
  qed (simp_all add: Pair unread_def)
qed

lemma unread_dispatch:
  "unread c (dispatch cl evs s)
     = map_option (\<lambda>u. u + int (length (filter (inbound c) evs))) (unread c s)"
proof (induction evs arbitrary: s)
  case Nil
  then show ?case by (simp add: dispatch_def option.map_ident)
next
  case (Cons ev evs)
  have step: "dispatch cl (ev # evs) s = dispatch cl evs (on_event cl ev s)"
    by (simp add: dispatch_def)
  show ?case
  proof (cases "inbound c ev")
    case True
    then show ?thesis
      unfolding step Cons.IH
      by (simp add: unread_inbound option.map_comp o_def add.assoc add.commute)
  next
    case False
    then show ?thesis
      unfolding step Cons.IH
      by (simp add: unread_not_inbound)
  qed
qed

lemma play_last:
  "play (Resume (length ts)) (s, ts @ [t])
     = (snd (handler_step t s), ts @ [fst (handler_step t s)])"
  by (simp add: split_beta)

lemma play_last_n:
  "foldl (\<lambda>st mv. play mv st) (s, ts @ [t]) (replicate n (Resume (length ts)))
     = (snd ((case_prod handler_step ^^ n) (t, s)),
        ts @ [fst ((case_prod handler_step ^^ n) (t, s))])"
proof (induction n arbitrary: s t)
  case 0
  show ?case by simp
next
  case (Suc n)
  let ?hs = "handler_step t s"
  have "foldl (\<lambda>st mv. play mv st) (s, ts @ [t]) (replicate (Suc n) (Resume (length ts)))
          = foldl (\<lambda>st mv. play mv st) (snd ?hs, ts @ [fst ?hs])
              (replicate n (Resume (length ts)))"
    by (simp only: replicate_Suc foldl_Cons play_last)
  also have "\<dots> = (snd ((case_prod handler_step ^^ n) (fst ?hs, snd ?hs)),
                    ts @ [fst ((case_prod handler_step ^^ n) (fst ?hs, snd ?hs))])"
    by (rule Suc.IH)
  also have "(case_prod handler_step ^^ n) (fst ?hs, snd ?hs)
               = (case_prod handler_step ^^ Suc n) (t, s)"
    by (simp add: funpow_swap1)
  finally show ?case .
qed

lemma five_steps:
  "(case_prod handler_step ^^ 5) (handler_start now m, s)
     = (\<lparr>task_now = now, task_message = m,
          task_stage = Settled (fst (handleMessage now m s))\<rparr>,
        snd (handleMessage now m s))"
  by (simp add: eval_nat_numeral handler_step_def handler_start_def handleMessage_def
      logMessage_def announce_def Let_def
      split: option.splits sum.splits prod.splits)

lemma one_at_a_time_dispatch_from:
  "fst (foldl (\<lambda>st mv. play mv st) (s, ts) (one_at_a_time (length ts) ms))
     = dispatch cl (message_events ms) s"
proof (induction ms arbitrary: s ts)
  case Nil
  show ?case by (simp add: dispatch_def message_events_def)
next
  case (Cons p ms)
  obtain now m where p: "p = (now, m)" by (cases p)
  let ?t = "\<lparr>task_now = now, task_message = m,
              task_stage = Settled (fst (handleMessage now m s))\<rparr>"
  have "foldl (\<lambda>st mv. play mv st) (s, ts) (one_at_a_time (length ts) (p # ms))
          = foldl (\<lambda>st mv. play mv st)
              (foldl (\<lambda>st mv. play mv st) (s, ts @ [handler_start now m])
                 (replicate 5 (Resume (length ts))))
              (one_at_a_time (Suc (length ts)) ms)"
    by (simp add: p)
  also have "\<dots> = foldl (\<lambda>st mv. play mv st) (snd (handleMessage now m s), ts @ [?t])
                      (one_at_a_time (length (ts @ [?t])) ms)"
    by (simp add: play_last_n five_steps)
  finally have "fst (foldl (\<lambda>st mv. play mv st) (s, ts) (one_at_a_time (length ts) (p # ms)))
                  = dispatch cl (message_events ms) (snd (handleMessage now m s))"
    by (simp only: Cons.IH)
  then show ?case
    by (simp add: p dispatch_def message_events_def)
qed

lemma one_at_a_time_dispatch:
  "fst (overlapped (one_at_a_time 0 ms) s) = dispatch cl (message_events ms) s"
  using one_at_a_time_dispatch_from [of s "[]" ms cl] by (simp add: overlapped_def)

text \<open>
  C4 (as amended). For a watched conversation whose events are handled one at a time
  (each handler ends before the next event is handled), after any run of events the
  entry's \<open>unreadCount\<close> has grown by exactly the number of deliveries of inbound
  non-self messages of that conversation that reach the registry update; self-sent
  echoes and every other event add nothing. The same holds in the stepwise run in which
  each arriving message has its handler settled before the next arrives. Marking the
  conversation read then sets the counter to 0.
\<close>

theorem unread_counts_inbound_messages:
  assumes "findOne_watched c (watchlist s) = Some w"
  shows "unread c (dispatch cl evs s)
           = Some (unreadCount w + int (length (filter (inbound c) evs)))
     \<and> unread c (fst (overlapped (one_at_a_time 0 ms) s))
           = Some (unreadCount w + int (length (filter (inbound c) (message_events ms))))
     \<and> (\<exists>s'. markAsRead_item now c (dispatch cl evs s) = Inr s' \<and> unread c s' = Some 0)"
proof -
  have u: "unread c (dispatch cl evs s)
             = Some (unreadCount w + int (length (filter (inbound c) evs)))" for evs
    using assms by (simp add: unread_dispatch) (simp add: unread_def)
  have v: "unread c (fst (overlapped (one_at_a_time 0 ms) s))
             = Some (unreadCount w + int (length (filter (inbound c) (message_events ms))))"
    by (simp only: one_at_a_time_dispatch [of ms s cl] u)
  from u obtain w' where "findOne_watched c (watchlist (dispatch cl evs s)) = Some w'"
    by (auto simp: unread_def)
  then have "\<exists>s'. markAsRead_item now c (dispatch cl evs s) = Inr s' \<and> unread c s' = Some 0"
    by (simp add: markAsRead_item_def unread_def findOne_watched_markAsRead markAsRead_def)
  with u v show ?thesis by simp
qed

text \<open>
  Three inbound messages of a watched group, with a self-sent echo in between: the
  counter goes from 0 to 3, and to 0 when marked read.
\<close>

theorem unread_counts_inbound_messages_witness:
  "findOne_watched ''G@g.us'' (watchlist (example_state [example_watch ''G@g.us'' True 1] []))
     = Some (example_watch ''G@g.us'' True 1)
   \<and> unread ''G@g.us''
        (dispatch None example_traffic (example_state [example_watch ''G@g.us'' True 1] []))
     = Some 3
   \<and> unread ''G@g.us''
        (fst (overlapped
           (one_at_a_time 0
              [(10001, example_message ''m1'' ''G@g.us'' ''me@c.us'' 10),
               (20001, example_message ''m2'' ''G@g.us'' ''me@c.us'' 20),
               (30001, example_message ''m3'' ''G@g.us'' ''me@c.us'' 30)])
           (example_state [example_watch ''G@g.us'' True 1] [])))
     = Some 3
   \<and> (\<exists>s'. markAsRead_item 40000 ''G@g.us''
              (dispatch None example_traffic (example_state [example_watch ''G@g.us'' True 1] []))
            = Inr s'
          \<and> unread ''G@g.us'' s' = Some 0)"
proof -
  let ?s = "example_state [example_watch ''G@g.us'' True 1] []"
  let ?ms = "[(10001, example_message ''m1'' ''G@g.us'' ''me@c.us'' 10),
              (20001, example_message ''m2'' ''G@g.us'' ''me@c.us'' 20),
              (30001, example_message ''m3'' ''G@g.us'' ''me@c.us'' 30)]"
  have k: "length (filter (inbound ''G@g.us'') (message_events ?ms)) = 3"
    by (simp add: message_events_def example_message_def valid_date_def message_date_def)
  have h1: "findOne_watched ''G@g.us'' (watchlist ?s) = Some (example_watch ''G@g.us'' True 1)"
    by (simp add: findOne_watched_def watched_def example_state_def example_watch_def
        new_watch_doc_def example_chat_data_def)
  have n: "length (filter (inbound ''G@g.us'') example_traffic) = 3"
    by (simp add: example_traffic_def example_message_def valid_date_def message_date_def)
  have z: "unreadCount (example_watch ''G@g.us'' True 1) = 0"
    by (simp add: example_watch_def new_watch_doc_def)
  from unread_counts_inbound_messages [OF h1, of None example_traffic ?ms 40000] h1 n k z
  show ?thesis
    by simp
qed

text \<open>
  The claim as stated fails in four places. Two inbound messages whose handlers overlap
  (both load the entry before either saves) are both handled to the end and logged, yet
  the counter grows by 1. An inbound group message whose chat lookup rejects is not
  counted. A message delivered twice is stored once and counted twice. And a message
  whose timestamp is beyond the range of a date is not counted, its \<open>save()\<close> being
  refused.
\<close>

theorem unread_count_differs_from_message_count:
  "unread ''G@g.us''
      (fst (overlapped example_overlap (example_state [example_watch ''G@g.us'' True 1] [])))
     = Some 1
   \<and> map task_stage
        (snd (overlapped example_overlap (example_state [example_watch ''G@g.us'' True 1] [])))
     = [Settled None, Settled None]
   \<and> map messageId (messages
        (fst (overlapped example_overlap (example_state [example_watch ''G@g.us'' True 1] []))))
     = [''m1'', ''m2'']
   \<and> unread ''G@g.us''
      (dispatch None
         [(10001, On_message
             ((example_message ''m1'' ''G@g.us'' ''me@c.us'' 10)\<lparr>msg_getChat := None\<rparr>))]
         (example_state [example_watch ''G@g.us'' True 1] [])) = Some 0
   \<and> unread ''G@g.us''
      (dispatch None
         [(10001, On_message (example_message ''m1'' ''G@g.us'' ''me@c.us'' 10)),
          (10002, On_message (example_message ''m1'' ''G@g.us'' ''me@c.us'' 10))]
         (example_state [example_watch ''G@g.us'' True 1] [])) = Some 2
   \<and> map messageId (messages
      (dispatch None
         [(10001, On_message (example_message ''m1'' ''G@g.us'' ''me@c.us'' 10)),
          (10002, On_message (example_message ''m1'' ''G@g.us'' ''me@c.us'' 10))]
         (example_state [example_watch ''G@g.us'' True 1] []))) = [''m1'']
   \<and> unread ''G@g.us''
      (dispatch None
         [(10001, On_message (example_message ''m1'' ''G@g.us'' ''me@c.us'' 8640000000001))]
         (example_state [example_watch ''G@g.us'' True 1] [])) = Some 0"
  by code_simp

subsection \<open>Pages of the message log\<close>

lemma find_Some_holds: "find P xs = Some x \<Longrightarrow> P x"
  by (induction xs) (auto split: if_splits)
lemma find_Some_mem: "find P xs = Some x \<Longrightarrow> x \<in> set xs"
  by (induction xs) (auto split: if_splits)

lemma set_apply_limit: "set (apply_limit n xs) \<subseteq> set xs"
  by (auto simp: apply_limit_def dest: in_set_takeD)

lemma set_getChatMessages:
  "set (getChatMessages c options coll) \<subseteq> {d \<in> set coll. chat_query c options d}"
  using set_apply_limit [of _ "sort_key (\<lambda>d. - timestamp d) (filter (chat_query c options) coll)"]
  by (auto simp: getChatMessages_def Let_def)

lemma in_take_sort_key:
  assumes "x \<in> set xs" and "length (filter (\<lambda>y. f y \<le> f x) xs) \<le> n"
  shows "x \<in> set (take n (sort_key f xs))"
proof -
  let ?ys = "sort_key f xs"
  let ?P = "\<lambda>y. f y \<le> f x"
  from assms(1) have "x \<in> set ?ys" by simp
  then obtain i where i: "i < length ?ys" "?ys ! i = x"
    unfolding in_set_conv_nth by blast
  have srt: "sorted (map f ?ys)" by simp
  have "\<forall>y\<in>set (take (Suc i) ?ys). ?P y"
  proof
    fix y assume "y \<in> set (take (Suc i) ?ys)"
    then obtain j where j: "j < Suc i" "j < length ?ys" "?ys ! j = y"
      by (auto simp: in_set_conv_nth)
    with srt i have "map f ?ys ! j \<le> map f ?ys ! i"
      by (intro sorted_nth_mono) auto
    with i j show "?P y" by simp
  qed
  then have "filter ?P (take (Suc i) ?ys) = take (Suc i) ?ys"
    by (simp add: filter_id_conv)
  then have "length (take (Suc i) ?ys) \<le> length (filter ?P (take (Suc i) ?ys @ drop (Suc i) ?ys))"
    by (simp del: append_take_drop_id)
  then have "Suc i \<le> length (filter ?P ?ys)"
    using i by simp
  also have "length (filter ?P ?ys) = length (filter ?P xs)"
    by (simp add: filter_sort)
  finally have "i < n" using assms(2) by simp
  with i show ?thesis
    by (auto simp: in_set_conv_nth intro!: exI [of _ i])
qed

lemma in_getChatMessages:
  assumes "d \<in> set coll" and "within_page c options d coll"
  shows "d \<in> set (getChatMessages c options coll)"
proof -
  let ?n = "case limit options of Some k \<Rightarrow> k | None \<Rightarrow> 50"
  let ?xs = "filter (chat_query c options) coll"
  from assms have mem: "d \<in> set ?xs"
    by (simp add: within_page_def)
  show ?thesis
  proof (cases "?n = 0")
    case True
    with mem show ?thesis
      by (simp add: getChatMessages_def apply_limit_def)
  next
    case False
    with assms(2) have
      "length (filter (\<lambda>x. chat_query c options x \<and> timestamp d \<le> timestamp x) coll) \<le> ?n"
      by (simp add: within_page_def Let_def)
    then have "length (filter (\<lambda>y. - timestamp y \<le> - timestamp d) ?xs) \<le> ?n"
      by (simp add: conj_commute)
    with mem have "d \<in> set (take ?n (sort_key (\<lambda>d. - timestamp d) ?xs))"
      by (rule in_take_sort_key)
    with False show ?thesis
      by (simp add: getChatMessages_def apply_limit_def)
  qed
qed

lemma rev_sort_desc:
  fixes f :: "'a \<Rightarrow> int"
  assumes "distinct (map f xs)"
  shows "rev (sort_key (\<lambda>d. - f d) xs) = sort_key f xs"
proof (rule map_sorted_distinct_set_unique [where f = f])
  from assms show "inj_on f (set (rev (sort_key (\<lambda>d. - f d) xs)) \<union> set (sort_key f xs))"
    by (simp add: distinct_map)
  have "sorted (map (\<lambda>d. - f d) (sort_key (\<lambda>d. - f d) xs))" by simp
  then show "sorted (map f (rev (sort_key (\<lambda>d. - f d) xs)))"
    by (simp add: sorted_map sorted_wrt_rev)
  show "sorted (map f (sort_key f xs))" by simp
  from assms have "distinct (map f (sort_key (\<lambda>d. - f d) xs))"
    by (metis distinct_map set_sort distinct_sort)
  then show "distinct (map f (rev (sort_key (\<lambda>d. - f d) xs)))"
    by (simp add: rev_map [symmetric] del: rev_map)
  from assms show "distinct (map f (sort_key f xs))"
    by (metis distinct_map set_sort distinct_sort)
  show "set (rev (sort_key (\<lambda>d. - f d) xs)) = set (sort_key f xs)" by simp
qed

text \<open>
  C6 (as amended). For a limit \<open>n\<close> of at least 1 and a conversation whose stored
  messages have pairwise different timestamps, \<open>getChatMessages\<close> with only the limit
  given returns the \<open>n\<close> most recent non-deleted messages of the conversation (all of
  them when there are fewer), oldest first.
\<close>

theorem page_is_most_recent:
  assumes "0 < n" and "distinct (map timestamp (filter (\<lambda>d. chatId d = c) coll))"
  shows "getChatMessages c (default_options\<lparr>limit := Some n\<rparr>) coll = most_recent n c coll
       \<and> sorted (map timestamp (getChatMessages c (default_options\<lparr>limit := Some n\<rparr>) coll))"
proof -
  let ?live = "filter (\<lambda>d. chatId d = c \<and> \<not> isDeleted d) coll"
  have q: "chat_query c (default_options\<lparr>limit := Some n\<rparr>) = (\<lambda>d. chatId d = c \<and> \<not> isDeleted d)"
    by (rule ext) (simp add: chat_query_def default_options_def cursor_def)
  from assms(2)
  have "distinct (map timestamp (filter (\<lambda>d. \<not> isDeleted d) (filter (\<lambda>d. chatId d = c) coll)))"
    by (rule distinct_map_filter)
  then have dist: "distinct (map timestamp ?live)"
    by simp
  have "getChatMessages c (default_options\<lparr>limit := Some n\<rparr>) coll
          = rev (take n (sort_key (\<lambda>d. - timestamp d) ?live))"
    using assms(1) by (simp add: getChatMessages_def q apply_limit_def)
  also have "\<dots> = drop (length ?live - n) (rev (sort_key (\<lambda>d. - timestamp d) ?live))"
    by (simp add: rev_take)
  also have "\<dots> = most_recent n c coll"
    using dist by (simp add: rev_sort_desc most_recent_def Let_def)
  finally have eq: "getChatMessages c (default_options\<lparr>limit := Some n\<rparr>) coll = most_recent n c coll" .
  have "sorted (map timestamp (most_recent n c coll))"
    by (simp add: most_recent_def Let_def drop_map [symmetric] sorted_wrt_drop del: drop_map)
  with eq show ?thesis by simp
qed

text \<open>Three messages at instants 10 < 20 < 30 and a limit of 2: the second and the third.\<close>

theorem page_is_most_recent_witness:
  "getChatMessages ''G@g.us'' (default_options\<lparr>limit := Some 2\<rparr>)
     [example_doc ''m3'' ''G@g.us'' 30, example_doc ''m1'' ''G@g.us'' 10,
      example_doc ''m2'' ''G@g.us'' 20]
   = [example_doc ''m2'' ''G@g.us'' 20, example_doc ''m3'' ''G@g.us'' 30]"
proof -
  let ?coll = "[example_doc ''m3'' ''G@g.us'' 30, example_doc ''m1'' ''G@g.us'' 10,
                example_doc ''m2'' ''G@g.us'' 20]"
  have h1: "0 < (2::nat)"
    by simp
  have h2: "distinct (map timestamp (filter (\<lambda>d. chatId d = ''G@g.us'') ?coll))"
    by (simp add: example_doc_def new_message_doc_def example_message_def message_date_def
        str_includes_def)
  have r: "most_recent 2 ''G@g.us'' ?coll
             = [example_doc ''m2'' ''G@g.us'' 20, example_doc ''m3'' ''G@g.us'' 30]"
    by (simp add: most_recent_def example_doc_def new_message_doc_def example_message_def
        message_date_def str_includes_def)
  from page_is_most_recent [OF h1 h2] r show ?thesis
    by simp
qed

text \<open>
  The claim as stated, for every limit, fails at the limit 0, which the store reads as
  no limit: the page then holds every non-deleted message, not none.
\<close>

theorem limit_zero_returns_everything:
  "getChatMessages ''G@g.us'' (default_options\<lparr>limit := Some 0\<rparr>)
     [example_doc ''m1'' ''G@g.us'' 10]
     = [example_doc ''m1'' ''G@g.us'' 10]
   \<and> most_recent 0 ''G@g.us'' [example_doc ''m1'' ''G@g.us'' 10] = []"
  by (simp add: getChatMessages_def apply_limit_def chat_query_def default_options_def
      cursor_def most_recent_def example_doc_def new_message_doc_def example_message_def
      str_includes_def)

subsection \<open>Revoke for everyone\<close>

text \<open>
  C5 (as amended). After a revoke event whose revoked message carries the stored id
  \<open>m\<close>: the stored record is marked deleted with the tombstone body; whatever
  \<open>getChatMessages\<close> returns for \<open>m\<close> is that tombstoned record, and only when deleted
  rows are asked for; the tombstoned record is returned whenever it lies within the
  page of the query; and the broadcast payload is the message id alone.
\<close>

theorem revoke_then_query:
  assumes inv: "distinct (map messageId (messages s))"
    and stored: "findOne_message m (messages s) = Some d"
    and ev: "msg_id revoked = m"
    and bf: "broadcastFn s"
  shows "findOne_message m (messages (handleMessageRevoke now message (Some revoked) s))
           = Some (d\<lparr>isDeleted := True, body := tombstone, updatedAt := now\<rparr>)
     \<and> (\<forall>c options x. x \<in> set (getChatMessages c options
                               (messages (handleMessageRevoke now message (Some revoked) s)))
            \<and> messageId x = m
          \<longrightarrow> includeDeleted options
              \<and> x = d\<lparr>isDeleted := True, body := tombstone, updatedAt := now\<rparr>)
     \<and> (\<forall>c options.
           within_page c options (d\<lparr>isDeleted := True, body := tombstone, updatedAt := now\<rparr>)
             (messages (handleMessageRevoke now message (Some revoked) s))
          \<longrightarrow> d\<lparr>isDeleted := True, body := tombstone, updatedAt := now\<rparr>
                \<in> set (getChatMessages c options
                         (messages (handleMessageRevoke now message (Some revoked) s))))
     \<and> trace (handleMessageRevoke now message (Some revoked) s)
         = trace s @ [Broadcast ''message:revoked'' (JObj [(''messageId'', JStr m)])]"
proof -
  let ?d' = "d\<lparr>isDeleted := True, body := tombstone, updatedAt := now\<rparr>"
  let ?coll' = "findOneAndUpdate_message now m (\<lambda>d. d\<lparr>isDeleted := True, body := tombstone\<rparr>) (messages s)"
  let ?s' = "handleMessageRevoke now message (Some revoked) s"
  have msgs: "messages ?s' = ?coll'"
    using ev by (simp add: handleMessageRevoke_def Let_def broadcast_def)
  have tr: "trace ?s' = trace s @ [Broadcast ''message:revoked'' (JObj [(''messageId'', JStr m)])]"
    using ev bf by (simp add: handleMessageRevoke_def Let_def broadcast_def WS_EVENTS_defs)
  have f: "findOne_message m ?coll' = Some ?d'"
    using stored by (simp add: findOne_after_update)
  have "map messageId ?coll' = map messageId (messages s)"
    unfolding findOneAndUpdate_message_def by (rule map_update_first) simp
  with inv have inv': "distinct (map messageId ?coll')"
    by simp
  from inv' f have only: "filter (\<lambda>x. messageId x = m) ?coll' = [?d']"
    unfolding findOne_message_def by (rule find_Some_filter_key)
  have uniq: "x = ?d'" if "x \<in> set ?coll'" "messageId x = m" for x
  proof -
    from that have "x \<in> set (filter (\<lambda>x. messageId x = m) ?coll')" by simp
    with only show ?thesis by simp
  qed
  have two: "includeDeleted options \<and> x = ?d'"
    if "x \<in> set (getChatMessages c options ?coll') \<and> messageId x = m" for c options x
  proof -
    from that set_getChatMessages [of c options ?coll']
    have x: "x \<in> set ?coll'" "chat_query c options x" by auto
    with that have "x = ?d'" by (simp add: uniq)
    with x(2) show ?thesis by (simp add: chat_query_def)
  qed
  have mem: "?d' \<in> set ?coll'"
    using f unfolding findOne_message_def by (rule find_Some_mem)
  have three: "?d' \<in> set (getChatMessages c options ?coll')"
    if "within_page c options ?d' ?coll'" for c options
    using mem that by (rule in_getChatMessages)
  from f two three tr show ?thesis
    unfolding msgs by blast
qed

text \<open>
  Two stored messages of the group; the older one is revoked. The default query
  returns the other one alone, the query that asks for deleted rows returns the
  tombstone, and the broadcast carries the id only.
\<close>

theorem revoke_then_query_witness:
  "findOne_message ''m1''
      (messages (handleMessageRevoke 99000 (example_message ''m1'' ''G@g.us'' ''me@c.us'' 10)
         (Some (example_message ''m1'' ''G@g.us'' ''me@c.us'' 10))
         (example_state [] [example_doc ''m1'' ''G@g.us'' 10, example_doc ''m2'' ''G@g.us'' 20])))
     = Some ((example_doc ''m1'' ''G@g.us'' 10)
               \<lparr>isDeleted := True, body := tombstone, updatedAt := 99000\<rparr>)
   \<and> getChatMessages ''G@g.us'' default_options
      (messages (handleMessageRevoke 99000 (example_message ''m1'' ''G@g.us'' ''me@c.us'' 10)
         (Some (example_message ''m1'' ''G@g.us'' ''me@c.us'' 10))
         (example_state [] [example_doc ''m1'' ''G@g.us'' 10, example_doc ''m2'' ''G@g.us'' 20])))
     = [example_doc ''m2'' ''G@g.us'' 20]
   \<and> (example_doc ''m1'' ''G@g.us'' 10)\<lparr>isDeleted := True, body := tombstone, updatedAt := 99000\<rparr>
      \<in> set (getChatMessages ''G@g.us'' (default_options\<lparr>includeDeleted := True\<rparr>)
      (messages (handleMessageRevoke 99000 (example_message ''m1'' ''G@g.us'' ''me@c.us'' 10)
         (Some (example_message ''m1'' ''G@g.us'' ''me@c.us'' 10))
         (example_state [] [example_doc ''m1'' ''G@g.us'' 10, example_doc ''m2'' ''G@g.us'' 20]))))
   \<and> trace (handleMessageRevoke 99000 (example_message ''m1'' ''G@g.us'' ''me@c.us'' 10)
         (Some (example_message ''m1'' ''G@g.us'' ''me@c.us'' 10))
         (example_state [] [example_doc ''m1'' ''G@g.us'' 10, example_doc ''m2'' ''G@g.us'' 20]))
     = [Broadcast ''message:revoked'' (JObj [(''messageId'', JStr ''m1'')])]"
proof -
  let ?s = "example_state [] [example_doc ''m1'' ''G@g.us'' 10, example_doc ''m2'' ''G@g.us'' 20]"
  let ?r = "example_message ''m1'' ''G@g.us'' ''me@c.us'' 10"
  let ?d' = "(example_doc ''m1'' ''G@g.us'' 10)
               \<lparr>isDeleted := True, body := tombstone, updatedAt := 99000\<rparr>"
  have h1: "distinct (map messageId (messages ?s))"
    by (simp add: example_state_def example_doc_def new_message_doc_def example_message_def)
  have h2: "findOne_message ''m1'' (messages ?s) = Some (example_doc ''m1'' ''G@g.us'' 10)"
    by (simp add: findOne_message_def example_state_def example_doc_def new_message_doc_def
        example_message_def)
  have h3: "msg_id ?r = ''m1''"
    by (simp add: example_message_def)
  have h4: "broadcastFn ?s"
    by (simp add: example_state_def)
  note T = revoke_then_query [OF h1 h2 h3 h4, of 99000 ?r]
  have coll: "messages (handleMessageRevoke 99000 ?r (Some ?r) ?s)
      = [?d', example_doc ''m2'' ''G@g.us'' 20]"
    by (simp add: handleMessageRevoke_def Let_def broadcast_def example_state_def
        findOneAndUpdate_message_def example_doc_def new_message_doc_def example_message_def)
  have page: "within_page ''G@g.us'' (default_options\<lparr>includeDeleted := True\<rparr>) ?d'
                [?d', example_doc ''m2'' ''G@g.us'' 20]"
    by (simp add: within_page_def chat_query_def default_options_def cursor_def
        example_doc_def new_message_doc_def example_message_def str_includes_def)
  have live: "getChatMessages ''G@g.us'' default_options [?d', example_doc ''m2'' ''G@g.us'' 20]
                = [example_doc ''m2'' ''G@g.us'' 20]"
    by (simp add: getChatMessages_def chat_query_def default_options_def cursor_def
        apply_limit_def example_doc_def new_message_doc_def example_message_def str_includes_def)
  from T page live show ?thesis
    unfolding coll by (simp add: example_state_def)
qed

text \<open>
  The claim as stated fails in two places. With fifty later messages in the
  conversation, the default page of the query that asks for deleted rows holds those
  fifty and not the revoked message. And an event that arrives without the revoked
  message (\<open>revokedMsg\<close> undefined) is ignored: nothing is marked and nothing is
  broadcast.
\<close>

theorem revoked_message_outside_page:
  "map messageId
     (getChatMessages ''G@g.us'' (default_options\<lparr>includeDeleted := True\<rparr>)
        (messages (handleMessageRevoke 200000 (example_message ''m1'' ''G@g.us'' ''me@c.us'' 10)
           (Some (example_message ''m1'' ''G@g.us'' ''me@c.us'' 10))
           (example_state [] (example_doc ''m1'' ''G@g.us'' 10 # later_messages)))))
     = map messageId later_messages
   \<and> ''m1'' \<notin> set (map messageId later_messages)
   \<and> handleMessageRevoke 200000
        ((example_message ''m1'' ''G@g.us'' ''me@c.us'' 10)\<lparr>msg_type := ''revoked''\<rparr>) None
        (example_state [] [example_doc ''m1'' ''G@g.us'' 10])
      = example_state [] [example_doc ''m1'' ''G@g.us'' 10]"
  by code_simp

subsection \<open>Adding to the watch registry\<close>

lemma maxOrder_Max:
  "maxOrder coll = (if filter w_isActive coll = [] then None
                    else Some (Max (w_order ` set (filter w_isActive coll))))"
proof (cases "sort_key (\<lambda>w. - w_order w) (filter w_isActive coll)")
  case Nil
  then have "filter w_isActive coll = []"
    by (metis length_0_conv length_sort)
  with Nil show ?thesis by (simp add: maxOrder_def)
next
  case (Cons y ys)
  let ?xs = "filter w_isActive coll"
  have s: "set (y # ys) = set ?xs"
    using Cons by (metis set_sort)
  have "sorted (map (\<lambda>w. - w_order w) (y # ys))"
    using Cons by (metis sorted_sort_key)
  then have "\<forall>z\<in>set (y # ys). w_order z \<le> w_order y"
    by auto
  with s have "Max (w_order ` set ?xs) = w_order y"
    by (intro Max_eqI) auto
  moreover from s have "?xs \<noteq> []"
    by (metis list.distinct(1) set_empty)
  ultimately show ?thesis using Cons by (simp add: maxOrder_def)
qed

text \<open>
  C8. \<open>addToWatchlist\<close> returns an already active entry as it is and leaves the
  collection alone; it reactivates a soft-deleted entry in place; and for a conversation
  without an entry (and data that pass the schema's validators) it appends a new active
  entry whose order is the largest order among the active entries plus 1, or 1 when no
  entry is active.
\<close>

theorem addToWatchlist_cases:
  "(\<forall>e. find (\<lambda>w. w_chatId w = cd_chatId chatData) coll = Some e \<and> w_isActive e
        \<longrightarrow> addToWatchlist now chatData coll = Inr (e, coll))
   \<and> (\<forall>e. find (\<lambda>w. w_chatId w = cd_chatId chatData) coll = Some e \<and> \<not> w_isActive e
        \<longrightarrow> (\<exists>coll'. addToWatchlist now chatData coll
                      = Inr (e\<lparr>w_isActive := True, w_updatedAt := now\<rparr>, coll')
                  \<and> find (\<lambda>w. w_chatId w = cd_chatId chatData) coll'
                      = Some (e\<lparr>w_isActive := True, w_updatedAt := now\<rparr>)
                  \<and> map w_chatId coll' = map w_chatId coll))
   \<and> (find (\<lambda>w. w_chatId w = cd_chatId chatData) coll = None
        \<and> cd_chatId chatData \<noteq> [] \<and> cd_chatName chatData \<noteq> []
        \<and> cd_chatType chatData \<in> set CHAT_TYPES
        \<longrightarrow> (\<exists>entry. addToWatchlist now chatData coll = Inr (entry, coll @ [entry])
                  \<and> w_chatId entry = cd_chatId chatData \<and> w_isActive entry
                  \<and> w_order entry
                      = (if filter w_isActive coll = [] then 1
                         else Max (w_order ` set (filter w_isActive coll)) + 1)))"
proof (intro conjI allI impI)
  fix e assume "find (\<lambda>w. w_chatId w = cd_chatId chatData) coll = Some e \<and> w_isActive e"
  then show "addToWatchlist now chatData coll = Inr (e, coll)"
    by (simp add: addToWatchlist_def)
next
  fix e assume a: "find (\<lambda>w. w_chatId w = cd_chatId chatData) coll = Some e \<and> \<not> w_isActive e"
  let ?saved = "e\<lparr>w_isActive := True, w_updatedAt := now\<rparr>"
  let ?coll' = "update_first (\<lambda>w. w_chatId w = cd_chatId chatData) (\<lambda>_. ?saved) coll"
  from a have k: "w_chatId e = cd_chatId chatData"
    by (auto dest: find_Some_holds)
  have 1: "addToWatchlist now chatData coll = Inr (?saved, ?coll')"
    using a by (simp add: addToWatchlist_def Let_def)
  have 2: "find (\<lambda>w. w_chatId w = cd_chatId chatData) ?coll' = Some ?saved"
    using a k by (induction coll) (auto split: if_splits)
  have 3: "map w_chatId ?coll' = map w_chatId coll"
    using k by (induction coll) auto
  from 1 2 3 show "\<exists>coll'. addToWatchlist now chatData coll = Inr (?saved, coll')
      \<and> find (\<lambda>w. w_chatId w = cd_chatId chatData) coll' = Some ?saved
      \<and> map w_chatId coll' = map w_chatId coll"
    by blast
next
  assume a: "find (\<lambda>w. w_chatId w = cd_chatId chatData) coll = None
        \<and> cd_chatId chatData \<noteq> [] \<and> cd_chatName chatData \<noteq> []
        \<and> cd_chatType chatData \<in> set CHAT_TYPES"
  then show "\<exists>entry. addToWatchlist now chatData coll = Inr (entry, coll @ [entry])
                  \<and> w_chatId entry = cd_chatId chatData \<and> w_isActive entry
                  \<and> w_order entry
                      = (if filter w_isActive coll = [] then 1
                         else Max (w_order ` set (filter w_isActive coll)) + 1)"
    by (simp add: addToWatchlist_def create_watch_def validate_watch_def new_watch_doc_def
        maxOrder_Max)
qed

theorem addToWatchlist_cases_witness:
  "addToWatchlist 7 (example_chat_data ''G@g.us'') [example_watch ''G@g.us'' True 4]
     = Inr (example_watch ''G@g.us'' True 4, [example_watch ''G@g.us'' True 4])
   \<and> (\<exists>coll'. addToWatchlist 7 (example_chat_data ''G@g.us'') [example_watch ''G@g.us'' False 4]
                = Inr ((example_watch ''G@g.us'' False 4)\<lparr>w_isActive := True, w_updatedAt := 7\<rparr>,
                       coll'))
   \<and> (\<exists>entry. addToWatchlist 7 (example_chat_data ''C@g.us'')
                  [example_watch ''A@g.us'' True 4, example_watch ''B@g.us'' False 9]
                = Inr (entry,
                       [example_watch ''A@g.us'' True 4, example_watch ''B@g.us'' False 9] @ [entry])
              \<and> w_order entry = 5)"
proof -
  let ?g = "example_chat_data ''G@g.us''"
  let ?c = "example_chat_data ''C@g.us''"
  let ?coll = "[example_watch ''A@g.us'' True 4, example_watch ''B@g.us'' False 9]"
  have a1: "find (\<lambda>w. w_chatId w = cd_chatId ?g) [example_watch ''G@g.us'' True 4]
              = Some (example_watch ''G@g.us'' True 4)
            \<and> w_isActive (example_watch ''G@g.us'' True 4)"
    by (simp add: example_watch_def example_chat_data_def new_watch_doc_def)
  have a2: "find (\<lambda>w. w_chatId w = cd_chatId ?g) [example_watch ''G@g.us'' False 4]
              = Some (example_watch ''G@g.us'' False 4)
            \<and> \<not> w_isActive (example_watch ''G@g.us'' False 4)"
    by (simp add: example_watch_def example_chat_data_def new_watch_doc_def)
  have a3: "find (\<lambda>w. w_chatId w = cd_chatId ?c) ?coll = None
            \<and> cd_chatId ?c \<noteq> [] \<and> cd_chatName ?c \<noteq> [] \<and> cd_chatType ?c \<in> set CHAT_TYPES"
    by (simp add: example_watch_def example_chat_data_def new_watch_doc_def CHAT_TYPES_def)
  have m: "(if filter w_isActive ?coll = [] then 1
            else Max (w_order ` set (filter w_isActive ?coll)) + 1) = 5"
    by (simp add: example_watch_def example_chat_data_def new_watch_doc_def)
  from addToWatchlist_cases [of ?g "[example_watch ''G@g.us'' True 4]" 7] a1
  have 1: "addToWatchlist 7 ?g [example_watch ''G@g.us'' True 4]
             = Inr (example_watch ''G@g.us'' True 4, [example_watch ''G@g.us'' True 4])"
    by blast
  from addToWatchlist_cases [of ?g "[example_watch ''G@g.us'' False 4]" 7] a2
  have 2: "\<exists>coll'. addToWatchlist 7 ?g [example_watch ''G@g.us'' False 4]
                = Inr ((example_watch ''G@g.us'' False 4)\<lparr>w_isActive := True, w_updatedAt := 7\<rparr>,
                       coll')"
    by blast
  from addToWatchlist_cases [of ?c ?coll 7] a3
  have "\<exists>entry. addToWatchlist 7 ?c ?coll = Inr (entry, ?coll @ [entry])
          \<and> w_order entry = (if filter w_isActive ?coll = [] then 1
                              else Max (w_order ` set (filter w_isActive ?coll)) + 1)"
    by blast
  then have 3: "\<exists>entry. addToWatchlist 7 ?c ?coll = Inr (entry, ?coll @ [entry])
          \<and> w_order entry = 5"
    unfolding m .
  from 1 2 3 show ?thesis
    by blast
qed

end
